theory Spec2Isabelle
  imports Main "HOL-Library.Sublist"
begin

section \<open>Strings\<close>

text \<open>
  Strings are byte lists (UTF-8). \<open>String.prototype.toLowerCase\<close> belongs to the
  JavaScript engine: it follows the case mappings of the Unicode Character Database,
  which is not part of this program. It is a field of the environment below
  (\<open>toLowerCase\<close>): the provider functions read it there, and the platform lookup and
  the selectors take it as their first argument \<open>lc\<close>. What is known of it without the
  database: on a string of ASCII characters it moves the letters A to Z (codes 65 to 90)
  to a to z and keeps every other character (\<open>ascii_exact\<close>).
\<close>

definition lower_char :: "char \<Rightarrow> char" where
  "lower_char c =
     (let n = (of_char c :: nat) in if 65 \<le> n \<and> n \<le> 90 then char_of (n + 32) else c)"

definition ascii_lower :: "string \<Rightarrow> string" where
  "ascii_lower s = map lower_char s"

definition ascii :: "string \<Rightarrow> bool" where
  "ascii s = list_all (\<lambda>c. (of_char c :: nat) < 128) s"

definition ascii_exact :: "(string \<Rightarrow> string) \<Rightarrow> bool" where
  "ascii_exact lc = (\<forall>s. ascii s \<longrightarrow> lc s = ascii_lower s)"

text \<open>\<open>s.includes(sub)\<close>: \<open>sub\<close> occurs in \<open>s\<close> as a contiguous run.\<close>

definition str_includes :: "string \<Rightarrow> string \<Rightarrow> bool" where
  "str_includes s sub = sublist sub s"

section \<open>Platform tables\<close>

text \<open>
  The three object literals of the source, in the source's order, as association lists
  from the lower-cased platform name to the provider's identifiers.
\<close>

type_synonym platform_table = "(string \<times> int list) list"

definition PLATFORM_MAPPING :: platform_table where
  "PLATFORM_MAPPING =
    [(''microsoft windows'', [4]),
     (''microsoft xbox 360'', [14]),
     (''microsoft xbox'', [80]),
     (''nintendo 3ds'', [8]),
     (''nintendo 64'', [83]),
     (''nintendo ds'', [9]),
     (''nintendo gamecube'', [11]),
     (''nintendo switch'', [7]),
     (''nintendo wii u'', [10]),
     (''nintendo wii'', [10]),
     (''sega dreamcast'', [106]),
     (''sega saturn'', [107]),
     (''sony playstation 2'', [15]),
     (''sony playstation 3'', [16]),
     (''sony playstation 4'', [18]),
     (''sony playstation 5'', [187]),
     (''sony playstation portable'', [17]),
     (''sony playstation vita'', [19]),
     (''sony playstation'', [27])]"

definition TGDB_PLATFORM_MAPPING :: platform_table where
  "TGDB_PLATFORM_MAPPING =
    [(''microsoft windows'', [1]),
     (''microsoft xbox 360'', [15]),
     (''microsoft xbox'', [14]),
     (''nintendo 3ds'', [4912]),
     (''nintendo 64'', [3]),
     (''nintendo ds'', [12]),
     (''nintendo gamecube'', [2]),
     (''nintendo switch'', [4971]),
     (''nintendo wii u'', [38]),
     (''nintendo wii'', [9]),
     (''sega dreamcast'', [16]),
     (''sega saturn'', [17]),
     (''sony playstation 2'', [8]),
     (''sony playstation 3'', [4911]),
     (''sony playstation 4'', [4919]),
     (''sony playstation 5'', [4980]),
     (''sony playstation portable'', [13]),
     (''sony playstation vita'', [39]),
     (''sony playstation'', [10])]"

definition IGDB_PLATFORM_MAPPING :: platform_table where
  "IGDB_PLATFORM_MAPPING =
    [(''microsoft windows'', [6]),
     (''microsoft xbox 360'', [12]),
     (''microsoft xbox'', [11]),
     (''nintendo 3ds'', [37]),
     (''nintendo 64'', [4]),
     (''nintendo ds'', [20]),
     (''nintendo gamecube'', [21]),
     (''nintendo switch'', [130]),
     (''nintendo wii u'', [41]),
     (''nintendo wii'', [5]),
     (''sega dreamcast'', [23]),
     (''sega saturn'', [32]),
     (''sony playstation 2'', [8]),
     (''sony playstation 3'', [9]),
     (''sony playstation 4'', [48]),
     (''sony playstation 5'', [167]),
     (''sony playstation portable'', [38]),
     (''sony playstation vita'', [46]),
     (''sony playstation'', [7])]"

text \<open>
  \<open>TABLE[systemName.toLowerCase()] || []\<close>. The tables are plain object literals, so a
  key that is not an own property is looked up on \<open>Object.prototype\<close>. Of its members
  only \<open>constructor\<close> and \<open>__proto__\<close> are fixed by \<open>toLowerCase\<close>; both are truthy, so
  \<open>|| []\<close> does not replace them:
  \<^item> \<open>constructor\<close> is the function \<open>Object\<close>: its \<open>length\<close> is 1 and it has no \<open>join\<close>;
  \<^item> \<open>__proto__\<close> is \<open>Object.prototype\<close>: it has no \<open>length\<close>.
  Every other missing key reads \<open>undefined\<close> and yields the empty array.
\<close>

datatype platform_lookup = PlatformIds "int list" | ObjectConstructor | ObjectPrototype

definition lookup_platform ::
  "(string \<Rightarrow> string) \<Rightarrow> platform_table \<Rightarrow> string \<Rightarrow> platform_lookup" where
  "lookup_platform lc table systemName =
     (let key = lc systemName in
      case map_of table key of
        Some ids \<Rightarrow> PlatformIds ids
      | None \<Rightarrow>
          if key = ''constructor'' then ObjectConstructor
          else if key = ''__proto__'' then ObjectPrototype
          else PlatformIds [])"

datatype exn = TypeError | HttpError int | FetchRejected | JsonRejected

text \<open>
  The guard every provider function applies before its search request:
  \<open>if (platformIds.length > 0) ... platformIds.join(",")\<close>. For an array the identifiers
  go into the request (none when it is empty). For \<open>Object.prototype\<close> the length is
  \<open>undefined\<close>, the comparison is false and nothing is joined, as for the empty array;
  the later guard \<open>platformIds.length > 0\<close> of the selector is false as well. For the
  function \<open>Object\<close> the length is 1 and calling the missing \<open>join\<close> throws.
\<close>

fun join_ids :: "platform_lookup \<Rightarrow> exn + int list" where
  "join_ids (PlatformIds ids) = Inr ids"
| "join_ids ObjectPrototype = Inr []"
| "join_ids ObjectConstructor = Inl TypeError"

section \<open>Provider payloads\<close>

text \<open>
  The interfaces of the source. Numbers are integers. A field the code tests before use
  (\<open>?.\<close>, \<open>&&\<close>, \<open>||\<close>) is an option: \<open>None\<close> is a missing, \<open>null\<close> or
  \<open>undefined\<close> value. An entry \<open>{platform: {id, name}}\<close> of the first provider's
  \<open>platforms\<close> is its inner record.
\<close>

record RAWGPlatform =
  rawg_platform_id :: int
  rawg_platform_name :: string

record RAWGGame =
  rawg_id :: int
  rawg_name :: string
  background_image :: "string option"
  rawg_platforms :: "RAWGPlatform list option"

record RAWGResponse =
  results :: "RAWGGame list option"

record TGDBImage =
  filename :: string
  resolution :: string

record TGDBBoxart =
  boxart_front :: "TGDBImage option"
  boxart_back :: "TGDBImage option"

record TheGamesDBGame =
  tgdb_id :: int
  game_title :: string
  release_date :: "string option"
  tgdb_platform :: int
  boxart :: "TGDBBoxart option"

record TGDBData =
  count :: int
  games :: "TheGamesDBGame list option"

record TheGamesDBResponse =
  tgdb_code :: int
  tgdb_status :: string
  tgdb_data :: "TGDBData option"

text \<open>
  The per-game image collection \<open>{[kind]: image[]}\<close>; the code reads its \<open>boxart\<close>
  and \<open>screenshots\<close> members. \<open>images_data\<close> is the object keyed by
  \<open>id.toString()\<close>, a map from the identifier.
\<close>

record TGDBGameImages =
  images_boxart :: "TGDBImage list option"
  images_screenshots :: "TGDBImage list option"

record TheGamesDBImageData =
  base_url :: string
  images_data :: "(int \<rightharpoonup> TGDBGameImages) option"

record IGDBCover =
  cover_id :: int
  cover_url :: "string option"
  image_id :: string

record IGDBGame =
  igdb_id :: int
  igdb_name :: string
  cover :: "IGDBCover option"
  igdb_platforms :: "int list option"

record IGDBAuthResponse =
  access_token :: string
  expires_in :: int
  token_type :: string

section \<open>Candidate selection\<close>

text \<open>
  The selection block of each provider function (\<open>bestMatch\<close>). On an empty list
  \<open>results[0]\<close> is \<open>undefined\<close> and the source does not enter the block: \<open>None\<close>.
\<close>

definition rawg_platform_match :: "int list \<Rightarrow> RAWGGame \<Rightarrow> bool" where
  "rawg_platform_match platformIds game =
     (case rawg_platforms game of
        None \<Rightarrow> False
      | Some ps \<Rightarrow> list_ex (\<lambda>p. rawg_platform_id p \<in> set platformIds) ps)"

definition bestMatchRAWG ::
  "(string \<Rightarrow> string) \<Rightarrow> RAWGGame list \<Rightarrow> string \<Rightarrow> int list \<Rightarrow> RAWGGame option" where
  "bestMatchRAWG lc rs title platformIds =
     (case rs of
        [] \<Rightarrow> None
      | first # _ \<Rightarrow>
          (case find (\<lambda>game. lc (rawg_name game) = lc title) rs of
             Some exactMatch \<Rightarrow> Some exactMatch
           | None \<Rightarrow>
               if platformIds \<noteq> [] then
                 (case find (rawg_platform_match platformIds) rs of
                    Some platformMatch \<Rightarrow> Some platformMatch
                  | None \<Rightarrow> Some first)
               else Some first))"

definition tgdb_platform_match :: "int list \<Rightarrow> TheGamesDBGame \<Rightarrow> bool" where
  "tgdb_platform_match platformIds game = (tgdb_platform game \<in> set platformIds)"

definition bestMatchTGDB ::
  "(string \<Rightarrow> string) \<Rightarrow> TheGamesDBGame list \<Rightarrow> string \<Rightarrow> int list
     \<Rightarrow> TheGamesDBGame option" where
  "bestMatchTGDB lc gs title platformIds =
     (case gs of
        [] \<Rightarrow> None
      | first # _ \<Rightarrow>
          (case find (\<lambda>game. lc (game_title game) = lc title) gs of
             Some exactMatch \<Rightarrow> Some exactMatch
           | None \<Rightarrow>
               if platformIds \<noteq> [] then
                 (case find (tgdb_platform_match platformIds) gs of
                    Some platformMatch \<Rightarrow> Some platformMatch
                  | None \<Rightarrow> Some first)
               else Some first))"

definition igdb_platform_match :: "int list \<Rightarrow> IGDBGame \<Rightarrow> bool" where
  "igdb_platform_match platformIds game =
     (case igdb_platforms game of
        None \<Rightarrow> False
      | Some ps \<Rightarrow> list_ex (\<lambda>platformId. platformId \<in> set platformIds) ps)"

definition bestMatchIGDB ::
  "(string \<Rightarrow> string) \<Rightarrow> IGDBGame list \<Rightarrow> string \<Rightarrow> int list \<Rightarrow> IGDBGame option" where
  "bestMatchIGDB lc gs title platformIds =
     (case gs of
        [] \<Rightarrow> None
      | first # _ \<Rightarrow>
          (case find (\<lambda>game. lc (igdb_name game) = lc title) gs of
             Some exactMatch \<Rightarrow> Some exactMatch
           | None \<Rightarrow>
               if platformIds \<noteq> [] then
                 (case find (igdb_platform_match platformIds) gs of
                    Some platformMatch \<Rightarrow> Some platformMatch
                  | None \<Rightarrow> Some first)
               else Some first))"

section \<open>The network\<close>

text \<open>
  A request is the endpoint and the parameters the source puts into the URL, the headers
  or the body. For \<open>IgdbGames\<close> these are the \<open>Client-ID\<close> header, the bearer token, and
  the title and platform identifiers the query body is built from.
\<close>

datatype request =
    RawgGames string "string option" "int list"
  | TgdbByGameName string string "int list"
  | TgdbImages string int
  | TwitchToken string string
  | IgdbGames string string string "int list"

datatype event = Fetch request | Delay nat

text \<open>
  What \<open>await fetch(...)\<close> gives: the promise rejects, or it resolves to a response with a
  status and a body; the body is \<open>None\<close> when \<open>response.json()\<close> rejects. The providers
  are a parameter: each answers from the events so far and the request. The record holds
  what the program takes from its surroundings: the engine's lower-casing and the five
  endpoints.
\<close>

datatype 'a response = Rejected | Response int "'a option"

record network =
  toLowerCase :: "string \<Rightarrow> string"
  rawg_api :: "event list \<Rightarrow> request \<Rightarrow> RAWGResponse response"
  tgdb_api :: "event list \<Rightarrow> request \<Rightarrow> TheGamesDBResponse response"
  tgdb_images_api :: "event list \<Rightarrow> request \<Rightarrow> TheGamesDBImageData response"
  twitch_api :: "event list \<Rightarrow> request \<Rightarrow> IGDBAuthResponse response"
  igdb_api :: "event list \<Rightarrow> request \<Rightarrow> IGDBGame list option response"

definition ok :: "int \<Rightarrow> bool" where
  "ok status = (200 \<le> status \<and> status \<le> 299)"

text \<open>\<open>if (!response.ok) throw new Error(...)\<close>, then \<open>await response.json()\<close>.\<close>

definition read_json :: "'a response \<Rightarrow> exn + 'a" where
  "read_json r =
     (case r of
        Rejected \<Rightarrow> Inl FetchRejected
      | Response status body \<Rightarrow>
          if \<not> ok status then Inl (HttpError status)
          else (case body of None \<Rightarrow> Inl JsonRejected | Some data \<Rightarrow> Inr data))"

text \<open>An optional string parameter tested by \<open>if (apiKey)\<close>: missing and empty are falsy.\<close>

definition truthy :: "string option \<Rightarrow> string option" where
  "truthy v = (case v of None \<Rightarrow> None | Some s \<Rightarrow> if s = [] then None else Some s)"

text \<open>\<open>try { body } catch (error) { console.error(...); return "" }\<close>\<close>

definition catch_empty :: "(exn + string) \<times> event list \<Rightarrow> (exn + string) \<times> event list" where
  "catch_empty r = (case r of (Inl e, tr) \<Rightarrow> (Inr [], tr) | (Inr s, tr) \<Rightarrow> (Inr s, tr))"

section \<open>Provider A: RAWG\<close>

definition rawg_body ::
  "network \<Rightarrow> string \<Rightarrow> string \<Rightarrow> string option \<Rightarrow> event list \<Rightarrow> (exn + string) \<times> event list" where
  "rawg_body net title systemName apiKey tr =
     (let platformIds = lookup_platform (toLowerCase net) PLATFORM_MAPPING systemName in
      case join_ids platformIds of
        Inl e \<Rightarrow> (Inl e, tr)
      | Inr ids \<Rightarrow>
          (let req = RawgGames title (truthy apiKey) ids; tr1 = tr @ [Fetch req] in
           case read_json (rawg_api net tr req) of
             Inl e \<Rightarrow> (Inl e, tr1)
           | Inr data \<Rightarrow>
               (case results data of
                  None \<Rightarrow> (Inr [], tr1)
                | Some rs \<Rightarrow>
                    (case bestMatchRAWG (toLowerCase net) rs title ids of
                       None \<Rightarrow> (Inr [], tr1)
                     | Some bestMatch \<Rightarrow>
                         (Inr (case background_image bestMatch of None \<Rightarrow> [] | Some u \<Rightarrow> u),
                          tr1)))))"

definition fetchGameCoverFromRAWG ::
  "network \<Rightarrow> string \<Rightarrow> string \<Rightarrow> string option \<Rightarrow> event list \<Rightarrow> (exn + string) \<times> event list" where
  "fetchGameCoverFromRAWG net title systemName apiKey tr =
     catch_empty (rawg_body net title systemName apiKey tr)"

section \<open>Provider B: TheGamesDB\<close>

definition boxart_url :: "string \<Rightarrow> TGDBImage list option \<Rightarrow> string option" where
  "boxart_url base b =
     (case b of
        None \<Rightarrow> None
      | Some imgs \<Rightarrow>
          (case find (\<lambda>img. str_includes (filename img) ''front'') imgs of
             Some frontBoxart \<Rightarrow> Some (base @ ''/boxart/front/'' @ filename frontBoxart)
           | None \<Rightarrow>
               (case imgs of
                  [] \<Rightarrow> None
                | img0 # _ \<Rightarrow> Some (base @ ''/boxart/front/'' @ filename img0))))"

definition screenshot_url :: "string \<Rightarrow> TGDBImage list option \<Rightarrow> string option" where
  "screenshot_url base sc =
     (case sc of
        None \<Rightarrow> None
      | Some [] \<Rightarrow> None
      | Some (s0 # _) \<Rightarrow> Some (base @ ''/screenshots/'' @ filename s0))"

text \<open>Lines 384 to 404: what is returned from the parsed images response.\<close>

definition resolveTGDBImage :: "TheGamesDBImageData \<Rightarrow> int \<Rightarrow> string" where
  "resolveTGDBImage imagesData gid =
     (case images_data imagesData of
        None \<Rightarrow> []
      | Some m \<Rightarrow>
          (case m gid of
             None \<Rightarrow> []
           | Some gameImages \<Rightarrow>
               (case boxart_url (base_url imagesData) (images_boxart gameImages) of
                  Some url \<Rightarrow> url
                | None \<Rightarrow>
                    (case screenshot_url (base_url imagesData) (images_screenshots gameImages) of
                       Some url \<Rightarrow> url
                     | None \<Rightarrow> []))))"

text \<open>\<open>bestMatch.boxart?.front\<close>\<close>

definition has_front :: "TheGamesDBGame \<Rightarrow> bool" where
  "has_front game = (case boxart game of None \<Rightarrow> False | Some b \<Rightarrow> boxart_front b \<noteq> None)"

definition tgdb_resolve ::
  "network \<Rightarrow> string \<Rightarrow> TheGamesDBGame \<Rightarrow> event list \<Rightarrow> (exn + string) \<times> event list" where
  "tgdb_resolve net apiKey bestMatch tr =
     (if has_front bestMatch then
        (let req = TgdbImages apiKey (tgdb_id bestMatch); tr1 = tr @ [Fetch req] in
         case read_json (tgdb_images_api net tr req) of
           Inl e \<Rightarrow> (Inl e, tr1)
         | Inr imagesData \<Rightarrow> (Inr (resolveTGDBImage imagesData (tgdb_id bestMatch)), tr1))
      else (Inr [], tr))"

definition tgdb_body ::
  "network \<Rightarrow> string \<Rightarrow> string \<Rightarrow> string \<Rightarrow> event list \<Rightarrow> (exn + string) \<times> event list" where
  "tgdb_body net title systemName apiKey tr =
     (let platformIds = lookup_platform (toLowerCase net) TGDB_PLATFORM_MAPPING systemName in
      case join_ids platformIds of
        Inl e \<Rightarrow> (Inl e, tr)
      | Inr ids \<Rightarrow>
          (let req = TgdbByGameName apiKey title ids; tr1 = tr @ [Fetch req] in
           case read_json (tgdb_api net tr req) of
             Inl e \<Rightarrow> (Inl e, tr1)
           | Inr data \<Rightarrow>
               (case tgdb_data data of
                  None \<Rightarrow> (Inr [], tr1)
                | Some d \<Rightarrow>
                    (case games d of
                       None \<Rightarrow> (Inr [], tr1)
                     | Some gs \<Rightarrow>
                         (case bestMatchTGDB (toLowerCase net) gs title ids of
                            None \<Rightarrow> (Inr [], tr1)
                          | Some bestMatch \<Rightarrow> tgdb_resolve net apiKey bestMatch tr1)))))"

definition fetchGameCoverFromTheGamesDB ::
  "network \<Rightarrow> string \<Rightarrow> string \<Rightarrow> string option \<Rightarrow> event list \<Rightarrow> (exn + string) \<times> event list" where
  "fetchGameCoverFromTheGamesDB net title systemName apiKey tr =
     (case truthy apiKey of
        None \<Rightarrow> (Inr [], tr)
      | Some key \<Rightarrow> catch_empty (tgdb_body net title systemName key tr))"

section \<open>Provider C: IGDB\<close>

text \<open>\<open>getIGDBAccessToken\<close> logs and rethrows.\<close>

definition getIGDBAccessToken ::
  "network \<Rightarrow> string \<Rightarrow> string \<Rightarrow> event list \<Rightarrow> (exn + string) \<times> event list" where
  "getIGDBAccessToken net clientId clientSecret tr =
     (let req = TwitchToken clientId clientSecret in
      (case read_json (twitch_api net tr req) of
         Inl e \<Rightarrow> Inl e
       | Inr data \<Rightarrow> Inr (access_token data),
       tr @ [Fetch req]))"

definition igdb_cover_url :: "IGDBGame \<Rightarrow> string" where
  "igdb_cover_url bestMatch =
     (case cover bestMatch of
        None \<Rightarrow> []
      | Some c \<Rightarrow>
          if image_id c = [] then []
          else ''https://images.igdb.com/igdb/image/upload/t_cover_big/'' @ image_id c @ ''.jpg'')"

definition igdb_body ::
  "network \<Rightarrow> string \<Rightarrow> string \<Rightarrow> string \<Rightarrow> string \<Rightarrow> event list \<Rightarrow> (exn + string) \<times> event list" where
  "igdb_body net title systemName clientId clientSecret tr =
     (case getIGDBAccessToken net clientId clientSecret tr of
        (Inl e, tr1) \<Rightarrow> (Inl e, tr1)
      | (Inr accessToken, tr1) \<Rightarrow>
          (let platformIds = lookup_platform (toLowerCase net) IGDB_PLATFORM_MAPPING systemName in
           case join_ids platformIds of
             Inl e \<Rightarrow> (Inl e, tr1)
           | Inr ids \<Rightarrow>
               (let req = IgdbGames clientId accessToken title ids; tr2 = tr1 @ [Fetch req] in
                case read_json (igdb_api net tr1 req) of
                  Inl e \<Rightarrow> (Inl e, tr2)
                | Inr None \<Rightarrow> (Inr [], tr2)
                | Inr (Some gs) \<Rightarrow>
                    (case bestMatchIGDB (toLowerCase net) gs title ids of
                       None \<Rightarrow> (Inr [], tr2)
                     | Some bestMatch \<Rightarrow> (Inr (igdb_cover_url bestMatch), tr2)))))"

definition fetchGameCoverFromIGDB ::
  "network \<Rightarrow> string \<Rightarrow> string \<Rightarrow> string option \<Rightarrow> string option \<Rightarrow> event list
     \<Rightarrow> (exn + string) \<times> event list" where
  "fetchGameCoverFromIGDB net title systemName clientId clientSecret tr =
     (case (truthy clientId, truthy clientSecret) of
        (Some cid, Some secret) \<Rightarrow> catch_empty (igdb_body net title systemName cid secret tr)
      | _ \<Rightarrow> (Inr [], tr))"

section \<open>The batch orchestrator\<close>

text \<open>
  A JavaScript object either lacks the key \<open>imageUrl\<close>, or holds \<open>undefined\<close> under it,
  or holds a string. A missing \<open>title\<close> or \<open>systemName\<close> is the empty string: \<open>!game.title\<close>
  is true for both.
\<close>

datatype field = Absent | Undefined | Str string

record GameItem =
  title :: string
  systemName :: string
  imageUrl :: field

text \<open>
  \<open>JSON.parse(inputJson)\<close>: it throws (with the engine's message), or yields a value that
  is not an array, or an array of items.
\<close>

datatype parsed = Throws string | NonArray | GameArray "GameItem list"

datatype ApiType = Rawg | Thegamesdb | Igdb

text \<open>The component's state that \<open>processGames\<close> reads and writes, and the events so far.\<close>

record component =
  inputJson :: parsed
  outputJson :: "GameItem list"
  isProcessing :: bool
  error :: string
  rawgApiKey :: string
  tgdbApiKey :: string
  igdbClientId :: string
  igdbClientSecret :: string
  processedCount :: nat
  totalCount :: nat
  activeApi :: ApiType
  trace :: "event list"

text \<open>Lines 616 to 622; \<open>rawgApiKey || undefined\<close> for the first provider.\<close>

definition fetch_cover ::
  "network \<Rightarrow> component \<Rightarrow> GameItem \<Rightarrow> event list \<Rightarrow> (exn + string) \<times> event list" where
  "fetch_cover net st game tr =
     (case activeApi st of
        Rawg \<Rightarrow>
          fetchGameCoverFromRAWG net (title game) (systemName game)
            (if rawgApiKey st = [] then None else Some (rawgApiKey st)) tr
      | Thegamesdb \<Rightarrow>
          fetchGameCoverFromTheGamesDB net (title game) (systemName game)
            (Some (tgdbApiKey st)) tr
      | Igdb \<Rightarrow>
          fetchGameCoverFromIGDB net (title game) (systemName game)
            (Some (igdbClientId st)) (Some (igdbClientSecret st)) tr)"

text \<open>
  The loop of lines 610 to 641 over the remaining items, with \<open>gamesWithCovers\<close> and the
  events as accumulators. \<open>imageUrl || undefined\<close> stores \<open>undefined\<close> for the empty
  string. The delay follows every item but the last. When the call throws, the handler
  pushes the item as it came and no delay follows. The progress counter set in the loop
  is reset when the run ends; logging and toasts are left out.
\<close>

fun process_items ::
  "network \<Rightarrow> component \<Rightarrow> GameItem list \<Rightarrow> GameItem list \<Rightarrow> event list
     \<Rightarrow> GameItem list \<times> event list" where
  "process_items net st [] gamesWithCovers tr = (gamesWithCovers, tr)"
| "process_items net st (game # rest) gamesWithCovers tr =
     (case fetch_cover net st game tr of
        (Inr url, tr1) \<Rightarrow>
          process_items net st rest
            (gamesWithCovers @ [game\<lparr>imageUrl := (if url = [] then Undefined else Str url)\<rparr>])
            (if rest \<noteq> [] then tr1 @ [Delay (if activeApi st = Igdb then 250 else 1000)]
             else tr1)
      | (Inl e, tr1) \<Rightarrow> process_items net st rest (gamesWithCovers @ [game]) tr1)"

text \<open>The \<open>finally\<close> block of line 658.\<close>

definition finally_block :: "component \<Rightarrow> component" where
  "finally_block st = st\<lparr>isProcessing := False, processedCount := 0, totalCount := 0\<rparr>"

definition invalid_item :: "GameItem \<Rightarrow> bool" where
  "invalid_item game = (title game = [] \<or> systemName game = [])"

text \<open>
  The handler reads the API selection, the keys and the input of the render it was
  created in (\<open>st0\<close>); the setters change what the next render sees.
\<close>

definition processGames :: "network \<Rightarrow> component \<Rightarrow> component" where
  "processGames net st0 =
     (let st = st0\<lparr>error := [], isProcessing := True, processedCount := 0\<rparr> in
      if activeApi st0 = Thegamesdb \<and> tgdbApiKey st0 = [] then
        st\<lparr>error := ''TheGamesDB API requires an API key'', isProcessing := False\<rparr>
      else if activeApi st0 = Igdb \<and> (igdbClientId st0 = [] \<or> igdbClientSecret st0 = []) then
        st\<lparr>error := ''IGDB API requires both Client ID and Client Secret'',
           isProcessing := False\<rparr>
      else
        finally_block
          (case inputJson st0 of
             Throws msg \<Rightarrow> st\<lparr>error := msg\<rparr>
           | NonArray \<Rightarrow> st\<lparr>error := ''Input must be an array of games''\<rparr>
           | GameArray gs \<Rightarrow>
               if list_ex invalid_item gs then
                 st\<lparr>error := ''Each game must have 'title' and 'systemName' properties''\<rparr>
               else
                 (case process_items net st0 gs [] (trace st0) of
                    (gamesWithCovers, tr) \<Rightarrow>
                      st\<lparr>totalCount := length gs, outputJson := gamesWithCovers, trace := tr\<rparr>)))"

text \<open>
  \<open>JSON.stringify(outputJson)\<close>, which the copy, download and display of the result use,
  writes a key only when it holds a value: a key holding \<open>undefined\<close> is omitted.
\<close>

definition stringify_imageUrl :: "GameItem \<Rightarrow> string option" where
  "stringify_imageUrl game = (case imageUrl game of Str s \<Rightarrow> Some s | _ \<Rightarrow> None)"

section \<open>Notions of the specification\<close>

text \<open>
  Case-insensitive equality of a display name and the input title, with respect to the
  engine's lower-casing.
\<close>

definition ci_equal :: "(string \<Rightarrow> string) \<Rightarrow> string \<Rightarrow> string \<Rightarrow> bool" where
  "ci_equal lc a b = (lc a = lc b)"

text \<open>
  Two strings that differ only in the case of ASCII letters, said without lower-casing:
  they have the same length, and at each position the characters are equal or one is a
  capital letter A to Z and the other the small letter 32 codes above it.
\<close>

definition case_pair :: "char \<Rightarrow> char \<Rightarrow> bool" where
  "case_pair x y =
     (let m = (of_char x :: nat); n = (of_char y :: nat) in
      x = y \<or> (65 \<le> m \<and> m \<le> 90 \<and> n = m + 32) \<or> (65 \<le> n \<and> n \<le> 90 \<and> m = n + 32))"

definition differ_only_in_case :: "string \<Rightarrow> string \<Rightarrow> bool" where
  "differ_only_in_case a b = list_all2 case_pair a b"

text \<open>The platform references of a candidate intersect the resolved identifiers.\<close>

definition intersects :: "int list \<Rightarrow> int list \<Rightarrow> bool" where
  "intersects refs platformIds = (set refs \<inter> set platformIds \<noteq> {})"

definition rawg_platform_refs :: "RAWGGame \<Rightarrow> int list" where
  "rawg_platform_refs game =
     (case rawg_platforms game of None \<Rightarrow> [] | Some ps \<Rightarrow> map rawg_platform_id ps)"

definition tgdb_platform_refs :: "TheGamesDBGame \<Rightarrow> int list" where
  "tgdb_platform_refs game = [tgdb_platform game]"

definition igdb_platform_refs :: "IGDBGame \<Rightarrow> int list" where
  "igdb_platform_refs game = (case igdb_platforms game of None \<Rightarrow> [] | Some ps \<Rightarrow> ps)"

text \<open>
  The tie-break of the specification: \<open>c\<close> is the first candidate with an equal name if
  there is one; else, with a non-empty identifier list, the first candidate with an
  intersecting platform reference if there is one; else the first candidate.
\<close>

definition selects ::
  "(string \<Rightarrow> string) \<Rightarrow> ('a \<Rightarrow> string) \<Rightarrow> ('a \<Rightarrow> int list) \<Rightarrow> 'a list \<Rightarrow> string
     \<Rightarrow> int list \<Rightarrow> 'a \<Rightarrow> bool" where
  "selects lc name_of refs_of cs t platformIds c =
     (c \<in> set cs \<and>
      (if \<exists>g \<in> set cs. ci_equal lc (name_of g) t
       then find (\<lambda>g. ci_equal lc (name_of g) t) cs = Some c
       else if platformIds \<noteq> [] \<and> (\<exists>g \<in> set cs. intersects (refs_of g) platformIds)
       then find (\<lambda>g. intersects (refs_of g) platformIds) cs = Some c
       else c = hd cs))"

text \<open>The validation of the credentials passes (lines 568 and 579).\<close>

definition credentials_present :: "component \<Rightarrow> bool" where
  "credentials_present st =
     (case activeApi st of
        Rawg \<Rightarrow> True
      | Thegamesdb \<Rightarrow> tgdbApiKey st \<noteq> []
      | Igdb \<Rightarrow> igdbClientId st \<noteq> [] \<and> igdbClientSecret st \<noteq> [])"

text \<open>The number of token exchanges among the events.\<close>

definition is_token_request :: "event \<Rightarrow> bool" where
  "is_token_request e = (case e of Fetch (TwitchToken _ _) \<Rightarrow> True | _ \<Rightarrow> False)"

definition token_exchanges :: "event list \<Rightarrow> nat" where
  "token_exchanges tr = length (filter is_token_request tr)"

text \<open>
  The \<open>try\<close> block of the selected provider function for one item, before its
  \<open>catch\<close>: \<open>Inl\<close> is a lookup that throws (the promise of \<open>fetch\<close> rejects, the status
  is not 2xx, the body does not parse, or a call on the looked-up platform value fails).
\<close>

definition item_body ::
  "network \<Rightarrow> component \<Rightarrow> GameItem \<Rightarrow> event list \<Rightarrow> (exn + string) \<times> event list" where
  "item_body net st game tr =
     (case activeApi st of
        Rawg \<Rightarrow>
          rawg_body net (title game) (systemName game)
            (if rawgApiKey st = [] then None else Some (rawgApiKey st)) tr
      | Thegamesdb \<Rightarrow> tgdb_body net (title game) (systemName game) (tgdbApiKey st) tr
      | Igdb \<Rightarrow>
          igdb_body net (title game) (systemName game) (igdbClientId st) (igdbClientSecret st) tr)"

text \<open>
  A failed response: a network error, a status outside 200 to 299, or a body that does
  not parse.
\<close>

definition failed :: "'a response \<Rightarrow> bool" where
  "failed r = (case r of Rejected \<Rightarrow> True | Response status body \<Rightarrow> \<not> ok status \<or> body = None)"






text \<open>The record the loop pushes for an item whose lookup starts at the events \<open>tr\<close>.\<close>

definition item_result :: "network \<Rightarrow> component \<Rightarrow> GameItem \<Rightarrow> event list \<Rightarrow> GameItem" where
  "item_result net st game tr =
     (case fst (fetch_cover net st game tr) of
        Inr url \<Rightarrow> game\<lparr>imageUrl := (if url = [] then Undefined else Str url)\<rparr>
      | Inl e \<Rightarrow> game)"

text \<open>
  The events when the lookup of item \<open>i\<close> starts: those after the items before it, each
  followed by its delay.
\<close>

definition item_start :: "network \<Rightarrow> component \<Rightarrow> GameItem list \<Rightarrow> nat \<Rightarrow> event list" where
  "item_start net st gs i =
     (if i = 0 then trace st
      else snd (process_items net st (take i gs) [] (trace st))
             @ [Delay (if activeApi st = Igdb then 250 else 1000)])"

text \<open>
  A necessary condition for an absolute URL (RFC 3986): it starts with a scheme, a letter
  followed by letters, digits, plus, minus or dot, and then a colon.
\<close>

definition is_alpha :: "char \<Rightarrow> bool" where
  "is_alpha c = (let n = (of_char c :: nat) in (65 \<le> n \<and> n \<le> 90) \<or> (97 \<le> n \<and> n \<le> 122))"

definition is_scheme_char :: "char \<Rightarrow> bool" where
  "is_scheme_char c =
     (let n = (of_char c :: nat) in
      is_alpha c \<or> (48 \<le> n \<and> n \<le> 57) \<or> n = 43 \<or> n = 45 \<or> n = 46)"

definition has_scheme :: "string \<Rightarrow> bool" where
  "has_scheme s =
     (case s of
        [] \<Rightarrow> False
      | c # cs \<Rightarrow>
          is_alpha c \<and> (case dropWhile is_scheme_char cs of [] \<Rightarrow> False | d # _ \<Rightarrow> d = CHR '':''))"

text \<open>
  The image choice of provider B in the specification's words, over the box-art and
  screenshot entries of the game in the images response (no entries where the response
  has no collection for the game): a box-art entry whose file name contains \<open>front\<close>,
  else the first box-art entry, else the first screenshot entry, else no cover.
\<close>

definition boxart_entries :: "TheGamesDBImageData \<Rightarrow> int \<Rightarrow> TGDBImage list" where
  "boxart_entries d gid =
     (case images_data d of
        None \<Rightarrow> []
      | Some m \<Rightarrow>
          (case m gid of
             None \<Rightarrow> []
           | Some gi \<Rightarrow> (case images_boxart gi of None \<Rightarrow> [] | Some b \<Rightarrow> b)))"

definition screenshot_entries :: "TheGamesDBImageData \<Rightarrow> int \<Rightarrow> TGDBImage list" where
  "screenshot_entries d gid =
     (case images_data d of
        None \<Rightarrow> []
      | Some m \<Rightarrow>
          (case m gid of
             None \<Rightarrow> []
           | Some gi \<Rightarrow> (case images_screenshots gi of None \<Rightarrow> [] | Some sc \<Rightarrow> sc)))"

definition image_choice :: "string \<Rightarrow> TGDBImage list \<Rightarrow> TGDBImage list \<Rightarrow> string" where
  "image_choice base b sc =
     (if \<exists>img \<in> set b. sublist ''front'' (filename img)
      then base @ ''/boxart/front/''
             @ filename (the (find (\<lambda>img. sublist ''front'' (filename img)) b))
      else if b \<noteq> [] then base @ ''/boxart/front/'' @ filename (hd b)
      else if sc \<noteq> [] then base @ ''/screenshots/'' @ filename (hd sc)
      else [])"

section \<open>Fixtures\<close>

text \<open>Concrete networks, states and payloads at which the theorems below are evaluated.\<close>

text \<open>
  Every fixture lower-cases with \<open>ascii_lower\<close>; their titles and platform names are
  ASCII, where it is the engine's function.
\<close>

definition offline :: network where
  "offline =
     \<lparr>toLowerCase = ascii_lower,
      rawg_api = (\<lambda>tr req. Rejected), tgdb_api = (\<lambda>tr req. Rejected),
      tgdb_images_api = (\<lambda>tr req. Rejected), twitch_api = (\<lambda>tr req. Rejected),
      igdb_api = (\<lambda>tr req. Rejected)\<rparr>"

text \<open>
  The first provider answers the search for \<open>A\<close> with status 500 (and a body that would
  parse to a covered candidate) and every other search with status 200 and one
  candidate whose image field is \<open>cover.jpg\<close>.
\<close>

definition rawg_fixture :: network where
  "rawg_fixture =
     offline\<lparr>rawg_api :=
       (\<lambda>tr req.
          case req of
            RawgGames t k ids \<Rightarrow>
              if t = ''A'' then
                Response 500
                  (Some \<lparr>results =
                     Some [\<lparr>rawg_id = 2, rawg_name = ''A'',
                            background_image = Some ''https://media.rawg.io/a.jpg'',
                            rawg_platforms = None\<rparr>]\<rparr>)
              else Response 200
                     (Some \<lparr>results =
                        Some [\<lparr>rawg_id = 1, rawg_name = ''B'',
                               background_image = Some ''cover.jpg'',
                               rawg_platforms = None\<rparr>]\<rparr>)
          | _ \<Rightarrow> Rejected)\<rparr>"

text \<open>The third provider grants a token and answers every search with one covered game.\<close>

definition igdb_fixture :: network where
  "igdb_fixture =
     offline\<lparr>twitch_api :=
       (\<lambda>tr req.
          Response 200 (Some \<lparr>access_token = ''tok'', expires_in = 3600,
                              token_type = ''bearer''\<rparr>)),
      igdb_api :=
       (\<lambda>tr req.
          Response 200
            (Some (Some [\<lparr>igdb_id = 1, igdb_name = ''A'',
                          cover = Some \<lparr>cover_id = 1, cover_url = None, image_id = ''co1''\<rparr>,
                          igdb_platforms = None\<rparr>])))\<rparr>"

definition game_a :: GameItem where
  "game_a = \<lparr>title = ''A'', systemName = ''Nintendo GameCube'', imageUrl = Absent\<rparr>"

definition game_b :: GameItem where
  "game_b = \<lparr>title = ''B'', systemName = ''Nintendo 64'', imageUrl = Absent\<rparr>"

text \<open>The component before a run over the two items, with no key entered.\<close>

definition idle :: component where
  "idle =
     \<lparr>inputJson = GameArray [game_a, game_b], outputJson = [], isProcessing = False,
      error = [], rawgApiKey = [], tgdbApiKey = [], igdbClientId = [],
      igdbClientSecret = [], processedCount = 0, totalCount = 0, activeApi = Rawg,
      trace = []\<rparr>"

definition idle_tgdb :: component where
  "idle_tgdb = idle\<lparr>activeApi := Thegamesdb\<rparr>"

definition idle_igdb :: component where
  "idle_igdb = idle\<lparr>activeApi := Igdb, igdbClientId := ''id'', igdbClientSecret := ''secret''\<rparr>"

text \<open>A candidate of the second provider with a front box-art reference.\<close>

definition boxed_game :: TheGamesDBGame where
  "boxed_game =
     \<lparr>tgdb_id = 7, game_title = ''A'', release_date = None, tgdb_platform = 2,
      boxart = Some \<lparr>boxart_front = Some \<lparr>filename = ''boxart/front/7-1.jpg'',
                                           resolution = ''640x480''\<rparr>,
                     boxart_back = None\<rparr>\<rparr>"

definition unboxed_game :: TheGamesDBGame where
  "unboxed_game = boxed_game\<lparr>boxart := None\<rparr>"

text \<open>Images responses for it: one exposing only a screenshot, one only a back box-art.\<close>

definition screenshots_only :: TheGamesDBImageData where
  "screenshots_only =
     \<lparr>base_url = ''https://cdn.thegamesdb.net/images/original'',
      images_data =
        Some [7 \<mapsto> \<lparr>images_boxart = None,
                     images_screenshots =
                       Some [\<lparr>filename = ''7-1.jpg'', resolution = ''640x480''\<rparr>]\<rparr>]\<rparr>"

definition back_only :: TheGamesDBImageData where
  "back_only =
     \<lparr>base_url = ''https://cdn.thegamesdb.net/images/original'',
      images_data =
        Some [7 \<mapsto> \<lparr>images_boxart =
                       Some [\<lparr>filename = ''back-7.jpg'', resolution = ''640x480''\<rparr>],
                     images_screenshots = None\<rparr>]\<rparr>"

definition tgdb_fixture :: network where
  "tgdb_fixture = offline\<lparr>tgdb_images_api := (\<lambda>tr req. Response 200 (Some screenshots_only))\<rparr>"





text \<open>
  The second provider with a key entered, answering the search with the boxed candidate
  and the images request with a response whose base URL is the relative path \<open>images\<close>.
\<close>

definition idle_tgdb_key :: component where
  "idle_tgdb_key = idle\<lparr>activeApi := Thegamesdb, tgdbApiKey := ''key''\<rparr>"

definition tgdb_relative :: network where
  "tgdb_relative =
     offline\<lparr>tgdb_api :=
       (\<lambda>tr req.
          Response 200
            (Some \<lparr>tgdb_code = 200, tgdb_status = ''Success'',
                   tgdb_data = Some \<lparr>count = 1, games = Some [boxed_game]\<rparr>\<rparr>)),
      tgdb_images_api :=
       (\<lambda>tr req. Response 200 (Some (screenshots_only\<lparr>base_url := ''images''\<rparr>)))\<rparr>"

text \<open>
  A lower-casing that also folds the capital letters of the Latin-1 supplement (U+00C0
  to U+00DE without U+00D7; in UTF-8 the byte 195 followed by a byte from 128 to 158
  other than 151). On strings of ASCII and Latin-1 characters it is the engine's function.
\<close>

fun latin1_lower :: "string \<Rightarrow> string" where
  "latin1_lower [] = []"
| "latin1_lower [c] = [lower_char c]"
| "latin1_lower (c # d # cs) =
     (if (of_char c :: nat) = 195 \<and> 128 \<le> (of_char d :: nat) \<and> (of_char d :: nat) \<le> 158
         \<and> (of_char d :: nat) \<noteq> 151
      then c # char_of ((of_char d :: nat) + 32) # latin1_lower cs
      else lower_char c # latin1_lower (d # cs))"

section \<open>The candidate selector\<close>

lemma find_Some_mem: "find P xs = Some x \<Longrightarrow> x \<in> set xs \<and> P x"
  by (induction xs) (auto split: if_splits)

lemma pick_cases:
  assumes cs: "cs = first # rest"
  shows "\<exists>c. (case find ex cs of
                Some e \<Rightarrow> Some e
              | None \<Rightarrow> if filt then (case find pm cs of Some p \<Rightarrow> Some p | None \<Rightarrow> Some first)
                        else Some first) = Some c
           \<and> c \<in> set cs
           \<and> (if \<exists>g \<in> set cs. ex g then find ex cs = Some c
              else if filt \<and> (\<exists>g \<in> set cs. pm g) then find pm cs = Some c
              else c = hd cs)"
proof (cases "find ex cs")
  case (Some e)
  with find_Some_mem[OF Some] show ?thesis by auto
next
  case exn: None
  then have no_exact: "\<not> (\<exists>g \<in> set cs. ex g)" by (simp add: find_None_iff)
  show ?thesis
  proof (cases "find pm cs")
    case None
    then have "\<not> (\<exists>g \<in> set cs. pm g)" by (simp add: find_None_iff)
    with exn None no_exact show ?thesis by (simp add: cs del: find.simps)
  next
    case (Some p)
    with exn no_exact find_Some_mem[OF Some] show ?thesis
      by (cases filt) (auto simp: cs simp del: find.simps)
  qed
qed

lemma rawg_match_refs:
  "rawg_platform_match pids = (\<lambda>g. intersects (rawg_platform_refs g) pids)"
  by (rule ext)
     (auto simp: rawg_platform_match_def intersects_def rawg_platform_refs_def list_ex_iff
           split: option.splits)

lemma tgdb_match_refs:
  "tgdb_platform_match pids = (\<lambda>g. intersects (tgdb_platform_refs g) pids)"
  by (rule ext) (auto simp: tgdb_platform_match_def intersects_def tgdb_platform_refs_def)

lemma igdb_match_refs:
  "igdb_platform_match pids = (\<lambda>g. intersects (igdb_platform_refs g) pids)"
  by (rule ext)
     (auto simp: igdb_platform_match_def intersects_def igdb_platform_refs_def list_ex_iff
           split: option.splits)

lemma rawg_selects:
  assumes "rs \<noteq> []"
  shows "\<exists>c. bestMatchRAWG lc rs t pids = Some c
             \<and> selects lc rawg_name rawg_platform_refs rs t pids c"
proof -
  from assms obtain first rest where rs: "rs = first # rest" by (cases rs) auto
  show ?thesis
    using pick_cases[OF rs, where ex = "\<lambda>g. ci_equal lc (rawg_name g) t" and filt = "pids \<noteq> []"
                        and pm = "\<lambda>g. intersects (rawg_platform_refs g) pids"]
    unfolding bestMatchRAWG_def selects_def rawg_match_refs ci_equal_def
    by (simp add: rs del: find.simps)
qed

lemma tgdb_selects:
  assumes "gs \<noteq> []"
  shows "\<exists>c. bestMatchTGDB lc gs t pids = Some c
             \<and> selects lc game_title tgdb_platform_refs gs t pids c"
proof -
  from assms obtain first rest where gs: "gs = first # rest" by (cases gs) auto
  show ?thesis
    using pick_cases[OF gs, where ex = "\<lambda>g. ci_equal lc (game_title g) t" and filt = "pids \<noteq> []"
                        and pm = "\<lambda>g. intersects (tgdb_platform_refs g) pids"]
    unfolding bestMatchTGDB_def selects_def tgdb_match_refs ci_equal_def
    by (simp add: gs del: find.simps)
qed

lemma igdb_selects:
  assumes "gs \<noteq> []"
  shows "\<exists>c. bestMatchIGDB lc gs t pids = Some c
             \<and> selects lc igdb_name igdb_platform_refs gs t pids c"
proof -
  from assms obtain first rest where gs: "gs = first # rest" by (cases gs) auto
  show ?thesis
    using pick_cases[OF gs, where ex = "\<lambda>g. ci_equal lc (igdb_name g) t" and filt = "pids \<noteq> []"
                        and pm = "\<lambda>g. intersects (igdb_platform_refs g) pids"]
    unfolding bestMatchIGDB_def selects_def igdb_match_refs ci_equal_def
    by (simp add: gs del: find.simps)
qed

text \<open>
  On ASCII strings the comparison of the code, equality after lower-casing, is equality
  up to the case of letters: lower-casing two characters gives the same character exactly
  when they are equal or a capital letter and its small letter.
\<close>

lemma of_char_lower_char:
  "(of_char (lower_char x) :: nat)
     = (if 65 \<le> (of_char x :: nat) \<and> (of_char x :: nat) \<le> 90 then of_char x + 32 else of_char x)"
  by (simp add: lower_char_def Let_def)

lemma lower_char_eq_iff: "lower_char x = lower_char y \<longleftrightarrow> case_pair x y"
proof -
  have "lower_char x = lower_char y
          \<longleftrightarrow> (of_char (lower_char x) :: nat) = of_char (lower_char y)"
    by simp
  also have "\<dots> \<longleftrightarrow> case_pair x y"
  proof -
    have xy: "x = y \<longleftrightarrow> (of_char x :: nat) = of_char y" by simp
    show ?thesis
      unfolding of_char_lower_char case_pair_def Let_def xy by auto
  qed
  finally show ?thesis .
qed

lemma ascii_lower_eq_iff: "ascii_lower a = ascii_lower b \<longleftrightarrow> differ_only_in_case a b"
  unfolding ascii_lower_def differ_only_in_case_def
proof (induction a arbitrary: b)
  case Nil
  show ?case by auto
next
  case (Cons x xs)
  show ?case by (cases b) (simp_all add: Cons.IH lower_char_eq_iff)
qed

lemma ci_equal_ascii:
  assumes "ascii_exact lc" "ascii a" "ascii b"
  shows "ci_equal lc a b = differ_only_in_case a b"
  using assms by (simp add: ci_equal_def ascii_exact_def ascii_lower_eq_iff)

lemma ascii_exact_ascii_lower: "ascii_exact ascii_lower"
  by (simp add: ascii_exact_def)

text \<open>
  Claim C1. For a non-empty candidate list, any title and any list of platform
  identifiers, the selector of each of the three providers returns a candidate of the
  list: the first one whose name equals the title up to letter case if there is one; else,
  when the identifier list is non-empty, the first one whose platform references
  intersect it if there is one; else the first candidate. It returns a candidate for every
  non-empty list. Equality up to letter case is equality after the engine's lower-casing,
  whatever that function is; for ASCII names and titles it holds exactly when the two
  differ only in the case of letters.
\<close>

theorem C1_selector:
  "(rs \<noteq> [] \<longrightarrow>
      (\<exists>c. bestMatchRAWG lc rs t pids = Some c
           \<and> selects lc rawg_name rawg_platform_refs rs t pids c)) \<and>
   (ts \<noteq> [] \<longrightarrow>
      (\<exists>c. bestMatchTGDB lc ts t pids = Some c
           \<and> selects lc game_title tgdb_platform_refs ts t pids c)) \<and>
   (gs \<noteq> [] \<longrightarrow>
      (\<exists>c. bestMatchIGDB lc gs t pids = Some c
           \<and> selects lc igdb_name igdb_platform_refs gs t pids c)) \<and>
   (ascii_exact lc \<and> ascii a \<and> ascii b \<longrightarrow> ci_equal lc a b = differ_only_in_case a b)"
proof -
  have "ci_equal lc a b = differ_only_in_case a b" if "ascii_exact lc" "ascii a" "ascii b"
    using that by (rule ci_equal_ascii)
  then show ?thesis
    using rawg_selects[of rs lc t pids] tgdb_selects[of ts lc t pids]
      igdb_selects[of gs lc t pids]
    by simp
qed

text \<open>
  The theorem at the fixtures of the specification: no exact match and a platform match
  for the first provider, neither match for the second, an exact match up to case for the
  third; and at the names \<open>BAZ\<close> and \<open>Baz\<close>, which differ only in case.
\<close>

theorem C1_selector_witness:
  "[\<lparr>rawg_id = 1, rawg_name = ''Bar X'', background_image = None,
      rawg_platforms = Some [\<lparr>rawg_platform_id = 9, rawg_platform_name = ''p9''\<rparr>]\<rparr>,
    \<lparr>rawg_id = 2, rawg_name = ''Bar Y'', background_image = None,
      rawg_platforms = Some [\<lparr>rawg_platform_id = 2, rawg_platform_name = ''p2''\<rparr>]\<rparr>] \<noteq> []
   \<and> [\<lparr>tgdb_id = 1, game_title = ''Bar X'', release_date = None, tgdb_platform = 9,
        boxart = None\<rparr>] \<noteq> []
   \<and> [\<lparr>igdb_id = 1, igdb_name = ''BAZ'', cover = None, igdb_platforms = None\<rparr>] \<noteq> []
   \<and> ascii_exact ascii_lower \<and> ascii ''BAZ'' \<and> ascii ''Baz''
   \<and> (\<exists>c. bestMatchRAWG ascii_lower
          [\<lparr>rawg_id = 1, rawg_name = ''Bar X'', background_image = None,
             rawg_platforms = Some [\<lparr>rawg_platform_id = 9, rawg_platform_name = ''p9''\<rparr>]\<rparr>,
           \<lparr>rawg_id = 2, rawg_name = ''Bar Y'', background_image = None,
             rawg_platforms = Some [\<lparr>rawg_platform_id = 2, rawg_platform_name = ''p2''\<rparr>]\<rparr>]
          ''Baz'' [2] = Some c
        \<and> selects ascii_lower rawg_name rawg_platform_refs
          [\<lparr>rawg_id = 1, rawg_name = ''Bar X'', background_image = None,
             rawg_platforms = Some [\<lparr>rawg_platform_id = 9, rawg_platform_name = ''p9''\<rparr>]\<rparr>,
           \<lparr>rawg_id = 2, rawg_name = ''Bar Y'', background_image = None,
             rawg_platforms = Some [\<lparr>rawg_platform_id = 2, rawg_platform_name = ''p2''\<rparr>]\<rparr>]
          ''Baz'' [2] c)
   \<and> (\<exists>c. bestMatchTGDB ascii_lower
          [\<lparr>tgdb_id = 1, game_title = ''Bar X'', release_date = None, tgdb_platform = 9,
             boxart = None\<rparr>] ''Baz'' [2] = Some c
        \<and> selects ascii_lower game_title tgdb_platform_refs
          [\<lparr>tgdb_id = 1, game_title = ''Bar X'', release_date = None, tgdb_platform = 9,
             boxart = None\<rparr>] ''Baz'' [2] c)
   \<and> (\<exists>c. bestMatchIGDB ascii_lower
          [\<lparr>igdb_id = 1, igdb_name = ''BAZ'', cover = None, igdb_platforms = None\<rparr>]
          ''Baz'' [2] = Some c
        \<and> selects ascii_lower igdb_name igdb_platform_refs
          [\<lparr>igdb_id = 1, igdb_name = ''BAZ'', cover = None, igdb_platforms = None\<rparr>]
          ''Baz'' [2] c)
   \<and> ci_equal ascii_lower ''BAZ'' ''Baz'' = differ_only_in_case ''BAZ'' ''Baz''
   \<and> differ_only_in_case ''BAZ'' ''Baz''"
proof -
  have h1: "ascii_exact ascii_lower" by (rule ascii_exact_ascii_lower)
  have h2: "ascii ''BAZ''" "ascii ''Baz''" by code_simp+
  have d: "differ_only_in_case ''BAZ'' ''Baz''" by code_simp
  from C1_selector
    [of "[\<lparr>rawg_id = 1, rawg_name = ''Bar X'', background_image = None,
            rawg_platforms = Some [\<lparr>rawg_platform_id = 9, rawg_platform_name = ''p9''\<rparr>]\<rparr>,
          \<lparr>rawg_id = 2, rawg_name = ''Bar Y'', background_image = None,
            rawg_platforms = Some [\<lparr>rawg_platform_id = 2, rawg_platform_name = ''p2''\<rparr>]\<rparr>]"
        ascii_lower "''Baz''" "[2]"
        "[\<lparr>tgdb_id = 1, game_title = ''Bar X'', release_date = None, tgdb_platform = 9,
            boxart = None\<rparr>]"
        "[\<lparr>igdb_id = 1, igdb_name = ''BAZ'', cover = None, igdb_platforms = None\<rparr>]"
        "''BAZ''" "''Baz''"] h1 h2 d
  show ?thesis by simp
qed

text \<open>
  With a lower-casing that folds the letters of the Latin-1 supplement, as the engine's
  does, the title \<open>POKEMON SNAP\<close> written with a capital E acute selects the second
  candidate, whose name is written with a small e acute.
\<close>

lemma latin1_title_selects_second:
  "bestMatchRAWG latin1_lower
     [\<lparr>rawg_id = 1, rawg_name = ''Other'', background_image = None, rawg_platforms = None\<rparr>,
      \<lparr>rawg_id = 2, rawg_name = ''Pok'' @ [CHR 0xC3, CHR 0xA9] @ ''mon Snap'',
        background_image = None, rawg_platforms = None\<rparr>]
     (''POK'' @ [CHR 0xC3, CHR 0x89] @ ''MON SNAP'') []
   = Some \<lparr>rawg_id = 2, rawg_name = ''Pok'' @ [CHR 0xC3, CHR 0xA9] @ ''mon Snap'',
        background_image = None, rawg_platforms = None\<rparr>"
  by code_simp

text \<open>
  Claim C2, as stated, fails: on the candidates \<open>Foo 2\<close> (platform 1) and \<open>Foo\<close>
  (platform 2), the title \<open>Foo\<close> and the identifiers \<open>[2]\<close>, the selector does not
  return the candidate named \<open>Foo 2\<close>. The strings are ASCII, where \<open>ascii_lower\<close> is the
  engine's lower-casing.
\<close>

theorem C2_fixture_counterexample:
  "map_option rawg_name
     (bestMatchRAWG ascii_lower
        [\<lparr>rawg_id = 1, rawg_name = ''Foo 2'', background_image = None,
           rawg_platforms = Some [\<lparr>rawg_platform_id = 1, rawg_platform_name = ''p1''\<rparr>]\<rparr>,
         \<lparr>rawg_id = 2, rawg_name = ''Foo'', background_image = None,
           rawg_platforms = Some [\<lparr>rawg_platform_id = 2, rawg_platform_name = ''p2''\<rparr>]\<rparr>]
        ''Foo'' [2]) \<noteq> Some ''Foo 2''"
  by code_simp

lemma lower_Foo:
  assumes "ascii_exact lc"
  shows "lc ''Foo'' = ''foo''" "lc ''Foo 2'' = ''foo 2''"
proof -
  have "ascii ''Foo''" "ascii ''Foo 2''" by code_simp+
  moreover have "ascii_lower ''Foo'' = ''foo''" "ascii_lower ''Foo 2'' = ''foo 2''"
    by code_simp+
  ultimately show "lc ''Foo'' = ''foo''" "lc ''Foo 2'' = ''foo 2''"
    using assms by (simp_all add: ascii_exact_def)
qed

text \<open>
  Claim C2, amended. On that fixture the selector of each provider returns the candidate
  named \<open>Foo\<close>, whose name equals the title; the other fields of the candidates do not
  matter, nor does the engine's lower-casing outside ASCII.
\<close>

theorem C2_fixture_selects_Foo:
  assumes "ascii_exact lc"
  shows
  "map_option rawg_name
     (bestMatchRAWG lc
        [\<lparr>rawg_id = i1, rawg_name = ''Foo 2'', background_image = b1,
           rawg_platforms = Some [\<lparr>rawg_platform_id = 1, rawg_platform_name = n1\<rparr>]\<rparr>,
         \<lparr>rawg_id = i2, rawg_name = ''Foo'', background_image = b2,
           rawg_platforms = Some [\<lparr>rawg_platform_id = 2, rawg_platform_name = n2\<rparr>]\<rparr>]
        ''Foo'' [2]) = Some ''Foo''
   \<and> map_option game_title
     (bestMatchTGDB lc
        [\<lparr>tgdb_id = j1, game_title = ''Foo 2'', release_date = d1, tgdb_platform = 1,
           boxart = x1\<rparr>,
         \<lparr>tgdb_id = j2, game_title = ''Foo'', release_date = d2, tgdb_platform = 2,
           boxart = x2\<rparr>]
        ''Foo'' [2]) = Some ''Foo''
   \<and> map_option igdb_name
     (bestMatchIGDB lc
        [\<lparr>igdb_id = k1, igdb_name = ''Foo 2'', cover = c1, igdb_platforms = Some [1]\<rparr>,
         \<lparr>igdb_id = k2, igdb_name = ''Foo'', cover = c2, igdb_platforms = Some [2]\<rparr>]
        ''Foo'' [2]) = Some ''Foo''"
  by (simp add: bestMatchRAWG_def bestMatchTGDB_def bestMatchIGDB_def lower_Foo[OF assms])

text \<open>The amended claim with the ASCII lower-casing and concrete candidates.\<close>

theorem C2_fixture_selects_Foo_witness:
  "ascii_exact ascii_lower
   \<and> map_option rawg_name
     (bestMatchRAWG ascii_lower
        [\<lparr>rawg_id = 1, rawg_name = ''Foo 2'', background_image = None,
           rawg_platforms = Some [\<lparr>rawg_platform_id = 1, rawg_platform_name = ''p1''\<rparr>]\<rparr>,
         \<lparr>rawg_id = 2, rawg_name = ''Foo'', background_image = None,
           rawg_platforms = Some [\<lparr>rawg_platform_id = 2, rawg_platform_name = ''p2''\<rparr>]\<rparr>]
        ''Foo'' [2]) = Some ''Foo''
   \<and> map_option game_title
     (bestMatchTGDB ascii_lower
        [\<lparr>tgdb_id = 1, game_title = ''Foo 2'', release_date = None, tgdb_platform = 1,
           boxart = None\<rparr>,
         \<lparr>tgdb_id = 2, game_title = ''Foo'', release_date = None, tgdb_platform = 2,
           boxart = None\<rparr>]
        ''Foo'' [2]) = Some ''Foo''
   \<and> map_option igdb_name
     (bestMatchIGDB ascii_lower
        [\<lparr>igdb_id = 1, igdb_name = ''Foo 2'', cover = None, igdb_platforms = Some [1]\<rparr>,
         \<lparr>igdb_id = 2, igdb_name = ''Foo'', cover = None, igdb_platforms = Some [2]\<rparr>]
        ''Foo'' [2]) = Some ''Foo''"
  using C2_fixture_selects_Foo[OF ascii_exact_ascii_lower, of 1 None "''p1''" 2 None "''p2''"
          1 None None 2 None None 1 None 2 None]
    ascii_exact_ascii_lower
  by simp

section \<open>The loop over the items\<close>

text \<open>
  Each provider function catches every exception of its body, so the call in the loop
  never throws and the handler of line 637 is never entered.
\<close>

lemma catch_empty_Inr: "\<not> isl (fst (catch_empty r))"
  by (cases r) (auto simp: catch_empty_def split: sum.splits)

lemma fetch_cover_Inr: "\<not> isl (fst (fetch_cover net st game tr))"
  by (auto simp: fetch_cover_def fetchGameCoverFromRAWG_def fetchGameCoverFromTheGamesDB_def
        fetchGameCoverFromIGDB_def catch_empty_Inr split: ApiType.splits option.splits)

lemma fetch_cover_credentials:
  "credentials_present st \<Longrightarrow> fetch_cover net st game tr = catch_empty (item_body net st game tr)"
  by (auto simp: credentials_present_def fetch_cover_def item_body_def truthy_def
        fetchGameCoverFromRAWG_def fetchGameCoverFromTheGamesDB_def fetchGameCoverFromIGDB_def
        split: ApiType.splits)

lemma process_items_Cons:
  "process_items net st (game # rest) acc tr =
     process_items net st rest (acc @ [item_result net st game tr])
       (if rest \<noteq> [] then snd (fetch_cover net st game tr)
                               @ [Delay (if activeApi st = Igdb then 250 else 1000)]
        else snd (fetch_cover net st game tr))"
proof (cases "fetch_cover net st game tr")
  case (Pair r tr1)
  with fetch_cover_Inr[of net st game tr] obtain url where "r = Inr url" by (cases r) auto
  with Pair show ?thesis by (simp add: item_result_def)
qed

lemma process_items_length:
  "length (fst (process_items net st gs acc tr)) = length acc + length gs"
  by (induction gs arbitrary: acc tr) (simp_all add: process_items_Cons del: process_items.simps(2))

lemma process_items_prefix:
  "i < length acc \<Longrightarrow> fst (process_items net st gs acc tr) ! i = acc ! i"
  by (induction gs arbitrary: acc tr)
     (simp_all add: process_items_Cons nth_append del: process_items.simps(2))

lemma process_items_append:
  "process_items net st (xs @ ys) acc tr =
     process_items net st ys (fst (process_items net st xs acc tr))
       (if xs \<noteq> [] \<and> ys \<noteq> []
        then snd (process_items net st xs acc tr)
               @ [Delay (if activeApi st = Igdb then 250 else 1000)]
        else snd (process_items net st xs acc tr))"
proof (induction xs arbitrary: acc tr)
  case Nil
  show ?case by simp
next
  case (Cons x xs)
  show ?case
  proof (cases "xs = []")
    case True
    then show ?thesis by (simp add: process_items_Cons del: process_items.simps(2))
  next
    case False
    then show ?thesis
      by (simp add: process_items_Cons Cons.IH del: process_items.simps(2))
  qed
qed

text \<open>
  The output holds, at each index, the record pushed for the input item of that index,
  whose lookup started at the events reached by then.
\<close>

lemma process_items_nth:
  assumes "i < length gs"
  shows "fst (process_items net st gs [] (trace st)) ! i
           = item_result net st (gs ! i) (item_start net st gs i)"
proof -
  have split: "gs = take i gs @ (gs ! i) # drop (Suc i) gs"
    using assms by (simp add: id_take_nth_drop)
  define pre where "pre = process_items net st (take i gs) [] (trace st)"
  have len: "length (fst pre) = i"
    using assms by (simp add: pre_def process_items_length)
  have start: "(if take i gs \<noteq> [] \<and> (gs ! i) # drop (Suc i) gs \<noteq> []
                then snd pre @ [Delay (if activeApi st = Igdb then 250 else 1000)]
                else snd pre) = item_start net st gs i"
    using assms by (auto simp: item_start_def pre_def)
  have "process_items net st gs [] (trace st)
          = process_items net st ((gs ! i) # drop (Suc i) gs) (fst pre) (item_start net st gs i)"
    using process_items_append[of net st "take i gs" "(gs ! i) # drop (Suc i) gs" "[]" "trace st"]
    unfolding split[symmetric] pre_def[symmetric] start .
  then have "fst (process_items net st gs [] (trace st)) ! i
          = (fst pre @ [item_result net st (gs ! i) (item_start net st gs i)]) ! i"
    by (simp add: process_items_Cons process_items_prefix len del: process_items.simps(2))
  then show ?thesis by (simp add: len nth_append)
qed

section \<open>Completed and aborted runs\<close>

lemma item_result_fields:
  "title (item_result net st game tr) = title game"
  "systemName (item_result net st game tr) = systemName game"
  by (simp_all add: item_result_def split: sum.splits)

lemma item_result_imageUrl:
  "imageUrl (item_result net st game tr) = Undefined
   \<or> (\<exists>s. s \<noteq> [] \<and> imageUrl (item_result net st game tr) = Str s)"
  using fetch_cover_Inr[of net st game tr]
  by (cases "fst (fetch_cover net st game tr)") (auto simp: item_result_def)

lemma processGames_completed:
  assumes "credentials_present st" "inputJson st = GameArray gs" "\<not> list_ex invalid_item gs"
  shows "outputJson (processGames net st) = fst (process_items net st gs [] (trace st))"
    and "trace (processGames net st) = snd (process_items net st gs [] (trace st))"
    and "error (processGames net st) = []"
  using assms
  by (auto simp: processGames_def credentials_present_def finally_block_def Let_def
           split: ApiType.splits prod.splits)

lemma processGames_nth:
  assumes "credentials_present st" "inputJson st = GameArray gs" "\<not> list_ex invalid_item gs"
    and "i < length gs"
  shows "outputJson (processGames net st) ! i
           = item_result net st (gs ! i) (item_start net st gs i)"
  using assms by (simp add: processGames_completed(1) process_items_nth)

lemma processGames_length:
  assumes "credentials_present st" "inputJson st = GameArray gs" "\<not> list_ex invalid_item gs"
  shows "length (outputJson (processGames net st)) = length gs"
  using assms by (simp add: processGames_completed(1) process_items_length)

text \<open>
  Claim C4, amended. For a well-formed input (an array whose elements all have a
  non-empty title and platform name) and a provider whose required credentials are
  present, the output list has the length of the input list, and the element at each
  index carries the title and platform name of the input element at that index.
\<close>

theorem C4_order_and_length:
  assumes "credentials_present st" "inputJson st = GameArray gs" "\<not> list_ex invalid_item gs"
  shows "length (outputJson (processGames net st)) = length gs \<and>
         (\<forall>i < length gs.
            title (outputJson (processGames net st) ! i) = title (gs ! i) \<and>
            systemName (outputJson (processGames net st) ! i) = systemName (gs ! i))"
  using assms by (simp add: processGames_length processGames_nth item_result_fields)

text \<open>
  Claim C4, as stated, fails: the input is well-formed, the second provider is selected
  and no key is entered; the run stops at line 576 and the output list stays empty.
\<close>

theorem C4_missing_key_counterexample:
  "inputJson idle_tgdb = GameArray [game_a, game_b]
   \<and> \<not> list_ex invalid_item [game_a, game_b]
   \<and> length (outputJson (processGames offline idle_tgdb)) \<noteq> length [game_a, game_b]"
  by code_simp

text \<open>
  The amended claim at the two-item input with the first provider.
\<close>

theorem C4_order_and_length_witness:
  "credentials_present idle \<and> inputJson idle = GameArray [game_a, game_b]
   \<and> \<not> list_ex invalid_item [game_a, game_b]
   \<and> length (outputJson (processGames rawg_fixture idle)) = 2
   \<and> title (outputJson (processGames rawg_fixture idle) ! 0) = ''A''
   \<and> systemName (outputJson (processGames rawg_fixture idle) ! 0) = ''Nintendo GameCube''
   \<and> title (outputJson (processGames rawg_fixture idle) ! 1) = ''B''
   \<and> systemName (outputJson (processGames rawg_fixture idle) ! 1) = ''Nintendo 64''"
proof -
  have h1: "credentials_present idle" by code_simp
  have h2: "inputJson idle = GameArray [game_a, game_b]" by (simp add: idle_def)
  have h3: "\<not> list_ex invalid_item [game_a, game_b]" by code_simp
  note c = C4_order_and_length[OF h1 h2 h3, of rawg_fixture]
  from c have len: "length (outputJson (processGames rawg_fixture idle)) = 2" by simp
  from c have
    "title (outputJson (processGames rawg_fixture idle) ! 0) = title ([game_a, game_b] ! 0)"
    "systemName (outputJson (processGames rawg_fixture idle) ! 0)
       = systemName ([game_a, game_b] ! 0)"
    "title (outputJson (processGames rawg_fixture idle) ! 1) = title ([game_a, game_b] ! 1)"
    "systemName (outputJson (processGames rawg_fixture idle) ! 1)
       = systemName ([game_a, game_b] ! 1)"
    by simp_all
  with len h1 h2 h3 show ?thesis by (simp add: game_a_def game_b_def)
qed

section \<open>Token exchanges of provider C\<close>

lemma token_exchanges_append [simp]:
  "token_exchanges (xs @ ys) = token_exchanges xs + token_exchanges ys"
  by (simp add: token_exchanges_def)

lemma token_exchanges_Nil [simp]: "token_exchanges [] = 0"
  by (simp add: token_exchanges_def)

lemma token_exchanges_Cons [simp]:
  "token_exchanges (Fetch (TwitchToken a b) # es) = Suc (token_exchanges es)"
  "token_exchanges (Fetch (IgdbGames c d e f) # es) = token_exchanges es"
  "token_exchanges (Delay n # es) = token_exchanges es"
  by (simp_all add: token_exchanges_def is_token_request_def)

lemma igdb_body_tokens:
  "token_exchanges (snd (igdb_body net t sys cid secret tr)) = token_exchanges tr + 1"
  by (simp add: igdb_body_def getIGDBAccessToken_def Let_def split: sum.splits option.splits)

lemma snd_catch_empty [simp]: "snd (catch_empty r) = snd r"
  by (cases r) (simp add: catch_empty_def split: sum.splits)

lemma fetch_cover_igdb_tokens:
  assumes "activeApi st = Igdb" "credentials_present st"
  shows "token_exchanges (snd (fetch_cover net st game tr)) = token_exchanges tr + 1"
  using assms
  by (simp add: fetch_cover_credentials item_body_def igdb_body_tokens)

lemma process_items_tokens:
  assumes "activeApi st = Igdb" "credentials_present st"
  shows "token_exchanges (snd (process_items net st gs acc tr)) = token_exchanges tr + length gs"
  using assms
  by (induction gs arbitrary: acc tr)
     (simp_all add: process_items_Cons fetch_cover_igdb_tokens del: process_items.simps(2))

text \<open>
  Claim C3, amended. A run with provider C that passes validation performs one token
  exchange for each input item: over \<open>n\<close> items it performs exactly \<open>n\<close> exchanges, none
  for the empty list.
\<close>

theorem C3_token_per_item:
  assumes "activeApi st = Igdb" "credentials_present st"
    and "inputJson st = GameArray gs" "\<not> list_ex invalid_item gs"
  shows "token_exchanges (trace (processGames net st)) = token_exchanges (trace st) + length gs"
  using assms by (simp add: processGames_completed(2) process_items_tokens)

text \<open>
  Claim C3, as stated, fails: a run with provider C over two items performs two token
  exchanges, not one.
\<close>

theorem C3_two_items_counterexample:
  "activeApi idle_igdb = Igdb \<and> inputJson idle_igdb = GameArray [game_a, game_b]
   \<and> token_exchanges (trace idle_igdb) = 0
   \<and> token_exchanges (trace (processGames igdb_fixture idle_igdb)) = 2"
  by code_simp

text \<open>
  The amended claim at the two-item input, with every request rejected.
\<close>

theorem C3_token_per_item_witness:
  "activeApi idle_igdb = Igdb \<and> credentials_present idle_igdb
   \<and> inputJson idle_igdb = GameArray [game_a, game_b]
   \<and> \<not> list_ex invalid_item [game_a, game_b]
   \<and> token_exchanges (trace (processGames offline idle_igdb))
       = token_exchanges (trace idle_igdb) + length [game_a, game_b]"
proof -
  have h1: "activeApi idle_igdb = Igdb" by (simp add: idle_igdb_def)
  have h2: "credentials_present idle_igdb" by code_simp
  have h3: "inputJson idle_igdb = GameArray [game_a, game_b]"
    by (simp add: idle_igdb_def idle_def)
  have h4: "\<not> list_ex invalid_item [game_a, game_b]" by code_simp
  from C3_token_per_item[OF h1 h2 h3 h4] h1 h2 h3 h4 show ?thesis by blast
qed

section \<open>Missing credentials\<close>

text \<open>
  Claim C6. When the key of provider B is missing, or the client identifier or the client
  secret of provider C, the run issues no request (the events are unchanged), leaves the
  output list unchanged and reports an error.
\<close>

theorem C6_missing_credentials_abort:
  assumes "activeApi st = Thegamesdb \<and> tgdbApiKey st = []
           \<or> activeApi st = Igdb \<and> (igdbClientId st = [] \<or> igdbClientSecret st = [])"
  shows "trace (processGames net st) = trace st
         \<and> outputJson (processGames net st) = outputJson st
         \<and> error (processGames net st) \<noteq> []"
  using assms by (auto simp: processGames_def Let_def)

text \<open>
  The claim at the second provider with no key entered.
\<close>

theorem C6_missing_credentials_abort_witness:
  "(activeApi idle_tgdb = Thegamesdb \<and> tgdbApiKey idle_tgdb = []
    \<or> activeApi idle_tgdb = Igdb
       \<and> (igdbClientId idle_tgdb = [] \<or> igdbClientSecret idle_tgdb = []))
   \<and> trace (processGames rawg_fixture idle_tgdb) = trace idle_tgdb
   \<and> outputJson (processGames rawg_fixture idle_tgdb) = outputJson idle_tgdb
   \<and> error (processGames rawg_fixture idle_tgdb) \<noteq> []"
proof -
  have h: "activeApi idle_tgdb = Thegamesdb \<and> tgdbApiKey idle_tgdb = []
    \<or> activeApi idle_tgdb = Igdb
       \<and> (igdbClientId idle_tgdb = [] \<or> igdbClientSecret idle_tgdb = [])"
    by (simp add: idle_tgdb_def idle_def)
  from C6_missing_credentials_abort[OF h] h show ?thesis by blast
qed

section \<open>Item-level failures\<close>

text \<open>
  A failed response makes \<open>read_json\<close> throw, and with it the body of the provider
  function, at each request of the lookup.
\<close>

lemma read_json_failed: "isl (read_json r) = failed r"
  by (simp add: read_json_def failed_def split: response.splits option.splits)









section \<open>The image resolver of provider B\<close>

text \<open>
  What lines 384 to 404 return is the choice of the specification over the entries of
  the game.
\<close>

lemma resolve_image_choice:
  "resolveTGDBImage d gid
     = image_choice (base_url d) (boxart_entries d gid) (screenshot_entries d gid)"
proof -
  have choice: "(case boxart_url base (Some b) of
                   Some url \<Rightarrow> url
                 | None \<Rightarrow> (case screenshot_url base (Some sc) of Some url \<Rightarrow> url | None \<Rightarrow> []))
                = image_choice base b sc" for base b sc
  proof (cases "find (\<lambda>img. sublist ''front'' (filename img)) b")
    case None
    then have "\<not> (\<exists>img \<in> set b. sublist ''front'' (filename img))"
      by (simp add: find_None_iff)
    with None show ?thesis
      by (cases b; cases sc)
         (simp_all add: boxart_url_def screenshot_url_def image_choice_def str_includes_def
            del: find.simps)
  next
    case (Some f)
    with find_Some_mem[OF Some] show ?thesis
      by (auto simp: boxart_url_def image_choice_def str_includes_def simp del: find.simps)
  qed
  have none_b: "boxart_url base None = boxart_url base (Some [])" for base
    by (simp add: boxart_url_def)
  have none_s: "screenshot_url base None = screenshot_url base (Some [])" for base
    by (simp add: screenshot_url_def)
  show ?thesis
  proof (cases "images_data d")
    case None
    then show ?thesis
      by (simp add: resolveTGDBImage_def boxart_entries_def screenshot_entries_def
            image_choice_def)
  next
    case (Some m)
    show ?thesis
    proof (cases "m gid")
      case None
      with Some show ?thesis
        by (simp add: resolveTGDBImage_def boxart_entries_def screenshot_entries_def
              image_choice_def)
    next
      case gi: (Some gi)
      have be: "boxart_url (base_url d) (images_boxart gi)
                  = boxart_url (base_url d) (Some (boxart_entries d gid))"
        by (cases "images_boxart gi") (simp_all add: boxart_entries_def Some gi none_b)
      have se: "screenshot_url (base_url d) (images_screenshots gi)
                  = screenshot_url (base_url d) (Some (screenshot_entries d gid))"
        by (cases "images_screenshots gi") (simp_all add: screenshot_entries_def Some gi none_s)
      have "resolveTGDBImage d gid
              = (case boxart_url (base_url d) (images_boxart gi) of
                   Some url \<Rightarrow> url
                 | None \<Rightarrow>
                     (case screenshot_url (base_url d) (images_screenshots gi) of
                        Some url \<Rightarrow> url
                      | None \<Rightarrow> []))"
        by (simp add: resolveTGDBImage_def Some gi)
      then show ?thesis unfolding be se choice .
    qed
  qed
qed

text \<open>
  Claim C7. A candidate without a front box-art reference yields no cover and no second
  request. For a candidate with one, when the images request is answered with a parsed
  response, the resolver returns the URL of a box-art entry whose file name contains
  \<open>front\<close> if there is one, else of the first box-art entry if there is one, else of the
  first screenshot entry if there is one, else no cover. When the images request fails,
  the resolver throws and the provider function returns no cover.
\<close>

theorem C7_image_fallback_order:
  "(\<not> has_front g \<longrightarrow> tgdb_resolve net key g tr = (Inr [], tr))
   \<and> (has_front g
        \<and> read_json (tgdb_images_api net tr (TgdbImages key (tgdb_id g))) = Inr d \<longrightarrow>
      tgdb_resolve net key g tr
        = (Inr (image_choice (base_url d) (boxart_entries d (tgdb_id g))
                  (screenshot_entries d (tgdb_id g))),
           tr @ [Fetch (TgdbImages key (tgdb_id g))]))
   \<and> (has_front g \<and> failed (tgdb_images_api net tr (TgdbImages key (tgdb_id g))) \<longrightarrow>
      catch_empty (tgdb_resolve net key g tr)
        = (Inr [], tr @ [Fetch (TgdbImages key (tgdb_id g))]))"
proof -
  have "catch_empty (tgdb_resolve net key g tr) = (Inr [], tr @ [Fetch (TgdbImages key (tgdb_id g))])"
    if "has_front g" "failed (tgdb_images_api net tr (TgdbImages key (tgdb_id g)))"
    using that read_json_failed[of "tgdb_images_api net tr (TgdbImages key (tgdb_id g))"]
    by (cases "read_json (tgdb_images_api net tr (TgdbImages key (tgdb_id g)))")
       (simp_all add: tgdb_resolve_def Let_def catch_empty_def)
  then show ?thesis
    by (simp add: tgdb_resolve_def Let_def resolve_image_choice)
qed

text \<open>
  The claim at a candidate without box-art, at a candidate with a front box-art reference
  whose images response exposes only a screenshot, and at that candidate when the images
  request is rejected.
\<close>

theorem C7_image_fallback_order_witness:
  "\<not> has_front unboxed_game
   \<and> tgdb_resolve tgdb_fixture ''key'' unboxed_game [] = (Inr [], [])
   \<and> has_front boxed_game
   \<and> read_json (tgdb_images_api tgdb_fixture [] (TgdbImages ''key'' (tgdb_id boxed_game)))
       = Inr screenshots_only
   \<and> tgdb_resolve tgdb_fixture ''key'' boxed_game []
       = (Inr ''https://cdn.thegamesdb.net/images/original/screenshots/7-1.jpg'',
          [Fetch (TgdbImages ''key'' 7)])
   \<and> failed (tgdb_images_api offline [] (TgdbImages ''key'' (tgdb_id boxed_game)))
   \<and> catch_empty (tgdb_resolve offline ''key'' boxed_game [])
       = (Inr [], [Fetch (TgdbImages ''key'' 7)])"
proof -
  have n: "\<not> has_front unboxed_game" by code_simp
  have h: "has_front boxed_game" by code_simp
  have r: "read_json (tgdb_images_api tgdb_fixture [] (TgdbImages ''key'' (tgdb_id boxed_game)))
             = Inr screenshots_only"
    by (simp add: tgdb_fixture_def read_json_def ok_def)
  have f: "failed (tgdb_images_api offline [] (TgdbImages ''key'' (tgdb_id boxed_game)))"
    by (simp add: offline_def failed_def)
  have c: "image_choice (base_url screenshots_only)
             (boxart_entries screenshots_only 7) (screenshot_entries screenshots_only 7)
           = ''https://cdn.thegamesdb.net/images/original/screenshots/7-1.jpg''"
    by (simp add: image_choice_def boxart_entries_def screenshot_entries_def
          screenshots_only_def)
  have i: "tgdb_id boxed_game = 7" by (simp add: boxed_game_def)
  note a = mp[OF conjunct1[OF C7_image_fallback_order[of unboxed_game tgdb_fixture "''key''" "[]"]] n]
  note b = mp[OF conjunct1[OF conjunct2[OF C7_image_fallback_order
                 [of boxed_game tgdb_fixture "''key''" "[]" screenshots_only]]] conjI[OF h r]]
  note e = mp[OF conjunct2[OF conjunct2[OF C7_image_fallback_order
                 [of boxed_game offline "''key''" "[]"]]] conjI[OF h f]]
  have b': "tgdb_resolve tgdb_fixture ''key'' boxed_game []
       = (Inr ''https://cdn.thegamesdb.net/images/original/screenshots/7-1.jpg'',
          [Fetch (TgdbImages ''key'' 7)])"
    using b unfolding i c by simp
  have e': "catch_empty (tgdb_resolve offline ''key'' boxed_game [])
       = (Inr [], [Fetch (TgdbImages ''key'' 7)])"
    using e unfolding i by simp
  show ?thesis
    by (simp only: n a h r b' f e' simp_thms)
qed

text \<open>
  Claim C10. When the game has box-art entries and none has a file name containing
  \<open>front\<close>, the returned URL is the base URL, the fixed segment \<open>/boxart/front/\<close> and the
  file name of the first box-art entry.
\<close>

theorem C10_fallback_boxart_path:
  assumes "boxart_entries d gid = e # es"
    and "\<forall>img \<in> set (e # es). \<not> str_includes (filename img) ''front''"
  shows "resolveTGDBImage d gid = base_url d @ ''/boxart/front/'' @ filename e"
  using assms by (simp add: resolve_image_choice image_choice_def str_includes_def)

text \<open>
  The claim at an images response that exposes only a back box-art.
\<close>

theorem C10_fallback_boxart_path_witness:
  "boxart_entries back_only 7 = [\<lparr>filename = ''back-7.jpg'', resolution = ''640x480''\<rparr>]
   \<and> \<not> str_includes ''back-7.jpg'' ''front''
   \<and> resolveTGDBImage back_only 7
       = ''https://cdn.thegamesdb.net/images/original/boxart/front/back-7.jpg''"
proof -
  have h1: "boxart_entries back_only 7
              = \<lparr>filename = ''back-7.jpg'', resolution = ''640x480''\<rparr> # []"
    by (simp add: boxart_entries_def back_only_def)
  have s: "\<not> str_includes ''back-7.jpg'' ''front''" by code_simp
  then have h2: "\<forall>img \<in> set (\<lparr>filename = ''back-7.jpg'', resolution = ''640x480''\<rparr> # []).
                   \<not> str_includes (filename img) ''front''"
    by simp
  from C10_fallback_boxart_path[OF h1 h2] h1 s show ?thesis by (simp add: back_only_def)
qed

section \<open>Platform lookup\<close>

text \<open>
  The lookup depends on the lower-cased name only: names with the same lower-casing, and
  so ASCII names that differ only in the case of letters, yield the same result. A name
  that is neither a key of the table nor, lower-cased, \<open>constructor\<close> or \<open>__proto__\<close>
  yields the empty list.
\<close>

lemma lookup_platform_case_insensitive:
  "lc a = lc b \<Longrightarrow> lookup_platform lc table a = lookup_platform lc table b"
  by (simp add: lookup_platform_def)

lemma lookup_platform_differ_only_in_case:
  assumes "ascii_exact lc" "ascii a" "ascii b" "differ_only_in_case a b"
  shows "lookup_platform lc table a = lookup_platform lc table b"
proof -
  from assms have "lc a = lc b"
    using ci_equal_ascii[of lc a b] by (simp add: ci_equal_def)
  then show ?thesis by (rule lookup_platform_case_insensitive)
qed

lemma lookup_platform_ascii:
  assumes "ascii_exact lc" "ascii s"
  shows "lookup_platform lc table s = lookup_platform ascii_lower table s"
  using assms by (simp add: lookup_platform_def ascii_exact_def)

lemma lookup_platform_gamecube:
  assumes "ascii_exact lc"
  shows "lookup_platform lc PLATFORM_MAPPING ''Nintendo GameCube'' = PlatformIds [11]"
    and "lookup_platform lc PLATFORM_MAPPING ''nintendo gamecube'' = PlatformIds [11]"
    and "lookup_platform lc TGDB_PLATFORM_MAPPING ''Nintendo GameCube'' = PlatformIds [2]"
    and "lookup_platform lc TGDB_PLATFORM_MAPPING ''nintendo gamecube'' = PlatformIds [2]"
    and "lookup_platform lc IGDB_PLATFORM_MAPPING ''Nintendo GameCube'' = PlatformIds [21]"
    and "lookup_platform lc IGDB_PLATFORM_MAPPING ''nintendo gamecube'' = PlatformIds [21]"
proof -
  have a: "ascii ''Nintendo GameCube''" "ascii ''nintendo gamecube''" by code_simp+
  have "lookup_platform ascii_lower PLATFORM_MAPPING ''Nintendo GameCube'' = PlatformIds [11]"
    "lookup_platform ascii_lower PLATFORM_MAPPING ''nintendo gamecube'' = PlatformIds [11]"
    "lookup_platform ascii_lower TGDB_PLATFORM_MAPPING ''Nintendo GameCube'' = PlatformIds [2]"
    "lookup_platform ascii_lower TGDB_PLATFORM_MAPPING ''nintendo gamecube'' = PlatformIds [2]"
    "lookup_platform ascii_lower IGDB_PLATFORM_MAPPING ''Nintendo GameCube'' = PlatformIds [21]"
    "lookup_platform ascii_lower IGDB_PLATFORM_MAPPING ''nintendo gamecube'' = PlatformIds [21]"
    by code_simp+
  then show "lookup_platform lc PLATFORM_MAPPING ''Nintendo GameCube'' = PlatformIds [11]"
    and "lookup_platform lc PLATFORM_MAPPING ''nintendo gamecube'' = PlatformIds [11]"
    and "lookup_platform lc TGDB_PLATFORM_MAPPING ''Nintendo GameCube'' = PlatformIds [2]"
    and "lookup_platform lc TGDB_PLATFORM_MAPPING ''nintendo gamecube'' = PlatformIds [2]"
    and "lookup_platform lc IGDB_PLATFORM_MAPPING ''Nintendo GameCube'' = PlatformIds [21]"
    and "lookup_platform lc IGDB_PLATFORM_MAPPING ''nintendo gamecube'' = PlatformIds [21]"
    by (simp_all add: lookup_platform_ascii[OF assms] a)
qed

lemma lookup_platform_unknown:
  assumes "map_of table (lc n) = None"
    and "lc n \<noteq> ''constructor''" "lc n \<noteq> ''__proto__''"
  shows "lookup_platform lc table n = PlatformIds []"
  using assms by (simp add: lookup_platform_def)

lemma lower_constructor:
  assumes "ascii_exact lc"
  shows "lc ''Constructor'' = ''constructor''"
proof -
  have "ascii ''Constructor''" by code_simp
  moreover have "ascii_lower ''Constructor'' = ''constructor''" by code_simp
  ultimately show ?thesis using assms by (simp add: ascii_exact_def)
qed

lemma constructor_absent:
  "map_of PLATFORM_MAPPING ''constructor'' = None"
  "map_of TGDB_PLATFORM_MAPPING ''constructor'' = None"
  "map_of IGDB_PLATFORM_MAPPING ''constructor'' = None"
  by code_simp+

text \<open>
  Claim C8 at the platform name \<open>Constructor\<close>. The name is not in the table, yet the
  lookup does not yield the empty list: it yields the inherited function \<open>Object\<close>, the
  guard \<open>platformIds.length > 0\<close> holds, \<open>platformIds.join\<close> throws, and the provider
  function returns no cover without issuing its search request, whatever the network
  would answer and whatever the engine's lower-casing does outside ASCII.
\<close>

theorem C8_constructor_lookup_throws:
  assumes "ascii_exact (toLowerCase net)"
  shows "map_of PLATFORM_MAPPING (toLowerCase net ''Constructor'') = None
   \<and> lookup_platform (toLowerCase net) PLATFORM_MAPPING ''Constructor'' = ObjectConstructor
   \<and> lookup_platform (toLowerCase net) TGDB_PLATFORM_MAPPING ''Constructor'' = ObjectConstructor
   \<and> lookup_platform (toLowerCase net) IGDB_PLATFORM_MAPPING ''Constructor'' = ObjectConstructor
   \<and> join_ids (lookup_platform (toLowerCase net) PLATFORM_MAPPING ''Constructor'') = Inl TypeError
   \<and> rawg_body net t ''Constructor'' key tr = (Inl TypeError, tr)
   \<and> fetchGameCoverFromRAWG net t ''Constructor'' key tr = (Inr [], tr)"
  by (simp add: fetchGameCoverFromRAWG_def catch_empty_def rawg_body_def lookup_platform_def
        lower_constructor[OF assms] constructor_absent)

text \<open>The claim at the fixture in which every request would be rejected.\<close>

theorem C8_constructor_lookup_throws_witness:
  "ascii_exact (toLowerCase offline)
   \<and> map_of PLATFORM_MAPPING (toLowerCase offline ''Constructor'') = None
   \<and> lookup_platform (toLowerCase offline) PLATFORM_MAPPING ''Constructor'' = ObjectConstructor
   \<and> lookup_platform (toLowerCase offline) TGDB_PLATFORM_MAPPING ''Constructor''
       = ObjectConstructor
   \<and> lookup_platform (toLowerCase offline) IGDB_PLATFORM_MAPPING ''Constructor''
       = ObjectConstructor
   \<and> join_ids (lookup_platform (toLowerCase offline) PLATFORM_MAPPING ''Constructor'')
       = Inl TypeError
   \<and> rawg_body offline ''Halo'' ''Constructor'' None [] = (Inl TypeError, [])
   \<and> fetchGameCoverFromRAWG offline ''Halo'' ''Constructor'' None [] = (Inr [], [])"
proof -
  have h: "ascii_exact (toLowerCase offline)"
    by (simp add: offline_def ascii_exact_ascii_lower)
  note c = C8_constructor_lookup_throws[OF h, of "''Halo''" None "[]"]
  from conjI[OF h c] show ?thesis .
qed

section \<open>The image URL of the output items\<close>

text \<open>
  The URL provider C builds is the fixed prefix, a non-empty image identifier and
  \<open>.jpg\<close>; it starts with the scheme \<open>https\<close>.
\<close>

lemma igdb_cover_url_form:
  "igdb_cover_url g = []
   \<or> (\<exists>iid. iid \<noteq> []
         \<and> igdb_cover_url g
             = ''https://images.igdb.com/igdb/image/upload/t_cover_big/'' @ iid @ ''.jpg'')"
  by (simp add: igdb_cover_url_def split: option.splits)

lemma igdb_prefix_scheme:
  "has_scheme (''https://images.igdb.com/igdb/image/upload/t_cover_big/'' @ x)"
  by (simp add: has_scheme_def is_alpha_def is_scheme_char_def)

lemma igdb_body_form:
  assumes "fst (igdb_body net t sys cid secret tr) = Inr url"
  shows "url = []
   \<or> (\<exists>iid. iid \<noteq> []
         \<and> url = ''https://images.igdb.com/igdb/image/upload/t_cover_big/'' @ iid @ ''.jpg'')"
  using assms igdb_cover_url_form
  by (auto simp: igdb_body_def Let_def split: prod.splits sum.splits option.splits)

lemma item_result_igdb_form:
  assumes "activeApi st = Igdb" "credentials_present st"
    and "imageUrl (item_result net st game tr) = Str s"
  shows "\<exists>iid. iid \<noteq> []
           \<and> s = ''https://images.igdb.com/igdb/image/upload/t_cover_big/'' @ iid @ ''.jpg''"
proof -
  obtain r tr1 where b: "item_body net st game tr = (r, tr1)" by (cases "item_body net st game tr")
  show ?thesis
  proof (cases r)
    case (Inl e)
    with assms b show ?thesis
      by (simp add: item_result_def fetch_cover_credentials catch_empty_def)
  next
    case (Inr url)
    with b assms(1) have "fst (igdb_body net (title game) (systemName game) (igdbClientId st)
                             (igdbClientSecret st) tr) = Inr url"
      by (simp add: item_body_def)
    from igdb_body_form[OF this] assms b Inr show ?thesis
      by (auto simp: item_result_def fetch_cover_credentials catch_empty_def split: if_splits)
  qed
qed

text \<open>
  Claim C9, amended. In the output of a run that passed validation, every item has the
  key \<open>imageUrl\<close>: it holds either \<open>undefined\<close>, and then the serialisation has no
  \<open>imageUrl\<close> field, or a non-empty string, which the serialisation shows; it is never
  the empty string. With provider C the string is the prefix
  \<open>https://images.igdb.com/igdb/image/upload/t_cover_big/\<close>, a non-empty image identifier
  and \<open>.jpg\<close>, and so starts with a URL scheme.
\<close>

theorem C9_imageUrl_absent_or_nonempty:
  assumes "credentials_present st" "inputJson st = GameArray gs" "\<not> list_ex invalid_item gs"
    and "g \<in> set (outputJson (processGames net st))"
  shows "(imageUrl g = Undefined \<and> stringify_imageUrl g = None
          \<or> (\<exists>s. s \<noteq> [] \<and> imageUrl g = Str s \<and> stringify_imageUrl g = Some s))
         \<and> (activeApi st = Igdb \<longrightarrow>
              (\<forall>s. imageUrl g = Str s \<longrightarrow>
                 (\<exists>iid. iid \<noteq> []
                    \<and> s = ''https://images.igdb.com/igdb/image/upload/t_cover_big/''
                          @ iid @ ''.jpg'')
                 \<and> has_scheme s))"
proof -
  from assms(4) obtain i where i: "i < length (outputJson (processGames net st))"
    and g: "g = outputJson (processGames net st) ! i"
    by (auto simp: in_set_conv_nth)
  from i assms(1-3) have il: "i < length gs" by (simp add: processGames_length)
  have res: "g = item_result net st (gs ! i) (item_start net st gs i)"
    using assms(1-3) il g by (simp add: processGames_nth)
  have first: "imageUrl g = Undefined \<and> stringify_imageUrl g = None
          \<or> (\<exists>s. s \<noteq> [] \<and> imageUrl g = Str s \<and> stringify_imageUrl g = Some s)"
    using item_result_imageUrl[of net st "gs ! i" "item_start net st gs i"]
    unfolding res[symmetric] by (auto simp: stringify_imageUrl_def)
  have form: "\<exists>iid. iid \<noteq> []
                \<and> s = ''https://images.igdb.com/igdb/image/upload/t_cover_big/'' @ iid @ ''.jpg''"
    if "activeApi st = Igdb" "imageUrl g = Str s" for s
    using item_result_igdb_form[OF that(1) assms(1), of net "gs ! i" "item_start net st gs i" s]
      that(2)
    unfolding res[symmetric] by blast
  have second: "activeApi st = Igdb \<longrightarrow>
              (\<forall>s. imageUrl g = Str s \<longrightarrow>
                 (\<exists>iid. iid \<noteq> []
                    \<and> s = ''https://images.igdb.com/igdb/image/upload/t_cover_big/''
                          @ iid @ ''.jpg'')
                 \<and> has_scheme s)"
    using form igdb_prefix_scheme by blast
  from first second show ?thesis by blast
qed

text \<open>
  Claim C9, as stated, fails, in both of its parts. When the first provider sends the
  image field \<open>cover.jpg\<close>, the output item carries it as its \<open>imageUrl\<close>, and it is not
  an absolute URL; so does the item of the second provider when the base URL of the
  images response is the relative path \<open>images\<close>. And the item whose lookup failed is
  not without the key: it holds \<open>undefined\<close> under it.
\<close>

theorem C9_relative_path_counterexample:
  "credentials_present idle \<and> inputJson idle = GameArray [game_a, game_b]
   \<and> \<not> list_ex invalid_item [game_a, game_b]
   \<and> imageUrl (outputJson (processGames rawg_fixture idle) ! 1) = Str ''cover.jpg''
   \<and> stringify_imageUrl (outputJson (processGames rawg_fixture idle) ! 1) = Some ''cover.jpg''
   \<and> \<not> has_scheme ''cover.jpg''
   \<and> imageUrl (outputJson (processGames rawg_fixture idle) ! 0) = Undefined
   \<and> imageUrl (outputJson (processGames rawg_fixture idle) ! 0) \<noteq> Absent
   \<and> credentials_present idle_tgdb_key
   \<and> imageUrl (outputJson (processGames tgdb_relative idle_tgdb_key) ! 0)
       = Str ''images/screenshots/7-1.jpg''
   \<and> \<not> has_scheme ''images/screenshots/7-1.jpg''"
  by code_simp

text \<open>The amended claim at a run with provider C.\<close>

theorem C9_imageUrl_absent_or_nonempty_witness:
  "credentials_present idle_igdb \<and> inputJson idle_igdb = GameArray [game_a, game_b]
   \<and> \<not> list_ex invalid_item [game_a, game_b]
   \<and> game_a\<lparr>imageUrl := Str ''https://images.igdb.com/igdb/image/upload/t_cover_big/co1.jpg''\<rparr>
       \<in> set (outputJson (processGames igdb_fixture idle_igdb))
   \<and> stringify_imageUrl
        (game_a\<lparr>imageUrl := Str ''https://images.igdb.com/igdb/image/upload/t_cover_big/co1.jpg''\<rparr>)
       = Some ''https://images.igdb.com/igdb/image/upload/t_cover_big/co1.jpg''
   \<and> has_scheme ''https://images.igdb.com/igdb/image/upload/t_cover_big/co1.jpg''"
proof -
  have h1: "credentials_present idle_igdb" by code_simp
  have h2: "inputJson idle_igdb = GameArray [game_a, game_b]"
    by (simp add: idle_igdb_def idle_def)
  have h3: "\<not> list_ex invalid_item [game_a, game_b]" by code_simp
  have out: "outputJson (processGames igdb_fixture idle_igdb)
      = [game_a\<lparr>imageUrl := Str ''https://images.igdb.com/igdb/image/upload/t_cover_big/co1.jpg''\<rparr>,
         game_b\<lparr>imageUrl := Str ''https://images.igdb.com/igdb/image/upload/t_cover_big/co1.jpg''\<rparr>]"
    by code_simp
  then have h4: "game_a\<lparr>imageUrl := Str ''https://images.igdb.com/igdb/image/upload/t_cover_big/co1.jpg''\<rparr>
       \<in> set (outputJson (processGames igdb_fixture idle_igdb))"
    by simp
  have api: "activeApi idle_igdb = Igdb" by (simp add: idle_igdb_def)
  from C9_imageUrl_absent_or_nonempty[OF h1 h2 h3 h4] api h1 h2 h3 h4 show ?thesis
    by (simp add: stringify_imageUrl_def)
qed

end
